theory Spec2Isabelle
  imports Complex_Main
begin

section \<open>The flexbox benchmark page (PerfBatch): data\<close>

text \<open>
  The page is one React component, \<^verbatim>\<open>PerfBatch\<close>, whose helper functions are closures over
  its state. The embedding passes that state (\<open>ui\<close>) and the browser (\<open>host\<close>) explicitly.

  JavaScript numbers are modelled exactly where the code keeps them exact:
  counts (iterations, loops, containers, items) and byte counts are taken to be integers
  (\<open>int\<close>, of either sign), clock readings, durations and random draws are \<open>rat\<close> (every
  finite double is a rational). Rounding of double arithmetic is not modelled. A quotient,
  which in JavaScript may be \<^verbatim>\<open>NaN\<close> or infinite, has the type \<open>number\<close>.
\<close>

datatype number = Finite rat | NaN | PosInfinity | NegInfinity

text \<open>Values stored in a prop set (\<^verbatim>\<open>Record<string, unknown>\<close>).\<close>

datatype jsval = Undefined | Num int | Str string | Obj "(string \<times> jsval) list"

type_synonym PropSet = "string \<rightharpoonup> jsval"

text \<open>\<^verbatim>\<open>type MemorySample\<close>: every field is optional.\<close>

record MemorySample =
  usedJSHeapSize :: "int option"
  totalJSHeapSize :: "int option"
  jsHeapSizeLimit :: "int option"

text \<open>The optional \<^verbatim>\<open>memory\<close> object of a result, with its four optional samples.\<close>

record Memory =
  createBefore :: "MemorySample option"
  createAfter :: "MemorySample option"
  mountBefore :: "MemorySample option"
  mountAfter :: "MemorySample option"

text \<open>The object returned by \<^verbatim>\<open>runCreateOnlyForest\<close>.\<close>

record CreateResult =
  name :: string
  createOnlyMsTotal :: rat
  createOnlyMsPerOp :: number
  memory :: "Memory option"

text \<open>The object returned by \<^verbatim>\<open>runUpdateBatchKeepMounted\<close>.\<close>

record UpdateResult =
  name :: string
  updateMsTotal :: rat
  updateMsPerOp :: number
  reactActualDurationMsTotal :: rat
  memory :: "Memory option"

text \<open>\<^verbatim>\<open>type CaseResult\<close>. The name is a string: \<^verbatim>\<open>BenchName\<close> is a union of three string
  literals, and \<^verbatim>\<open>runOne\<close> itself checks for a name outside it.\<close>

record CaseResult =
  name :: string
  createOnlyMsTotal :: rat
  createOnlyMsPerOp :: number
  updateMsTotal :: rat
  updateMsPerOp :: number
  reactActualDurationMsTotal :: rat
  memory :: "Memory option"

text \<open>React element descriptors, as \<^verbatim>\<open>React.createElement\<close> builds them: a type, a key
  (\<open>None\<close> for \<^verbatim>\<open>null\<close>), the props without the key, and the children.\<close>

datatype impl = FlexBasic | NativeFlexBasicElement | RlkFlexbox

datatype etype = Host string | Component impl | Fragment | Profiler | MountSignal

datatype element = Element etype "string option" PropSet "element list"

text \<open>What a JavaScript \<^verbatim>\<open>throw\<close> carries here: an \<^verbatim>\<open>Error\<close> or a \<^verbatim>\<open>TypeError\<close>, each
  with its message.\<close>

datatype exn = Error string | TypeError string

text \<open>How an \<^verbatim>\<open>async\<close> function ends: it returns, it throws, or it stays suspended for ever
  on a promise that is never resolved.\<close>

datatype 'a outcome = Returned 'a | Thrown exn | Pending

text \<open>The component's state (\<^verbatim>\<open>useState\<close>).\<close>

record ui =
  running :: bool
  results :: "CaseResult list option"
  error :: "string option"
  createIterations :: int
  mountLoops :: int
  flexboxCount :: int
  itemsPerFlexbox :: int
  randomPropsEnabled :: bool

subsection \<open>The browser\<close>

text \<open>
  What the page does to the browser is recorded in order (\<open>trace\<close>); what it reads from the
  browser comes from sources indexed by the number of readings taken so far (\<open>reads\<close>), so
  that any sequence of clock values, heap counters, random draws and render reports can be
  supplied.
  \<^item> \<open>hasGC\<close>: \<^verbatim>\<open>typeof window !== 'undefined' && typeof window.gc === 'function'\<close>;
  \<^item> \<open>perfMemory\<close>: \<^verbatim>\<open>performance.memory\<close> (used, total, limit), \<open>None\<close> where the browser has none;
  \<^item> \<open>perfNow\<close>: \<^verbatim>\<open>performance.now()\<close>;
  \<^item> \<open>randomSource\<close>: \<^verbatim>\<open>Math.random()\<close>;
  \<^item> \<open>reactCommit\<close>: the answer to \<^verbatim>\<open>root.render\<close>: \<open>None\<close> when the tree never commits (the
    layout effect of \<^verbatim>\<open>MountSignal\<close> never runs), otherwise the durations the profiler
    reports before the commit signal and the \<^verbatim>\<open>data-emotion\<close> keys of the style tags the
    render injects;
  \<^item> \<open>body\<close>: the containers the page has appended to \<^verbatim>\<open>document.body\<close>;
  \<^item> \<open>styles\<close>: the \<^verbatim>\<open>data-emotion\<close> attribute of every \<^verbatim>\<open>style[data-emotion]\<close> element.
\<close>

datatype event = GcCall | FrameWait | ConsoleTable CaseResult

record Container =
  stylePosition :: string
  styleLeft :: string
  styleTop :: string
  rendered :: "element option"

record host =
  hasGC :: bool
  perfMemory :: "(nat \<Rightarrow> int \<times> int \<times> int) option"
  perfNow :: "nat \<Rightarrow> rat"
  randomSource :: "nat \<Rightarrow> rat"
  reactCommit :: "nat \<Rightarrow> (rat list \<times> string list) option"
  reads :: nat
  trace :: "event list"
  body :: "Container list"
  styles :: "string list"

section \<open>Timing, settling and memory sampling\<close>

text \<open>\<^verbatim>\<open>raf\<close>: awaiting it suspends until the next animation frame. (The frame is taken to
  arrive.)\<close>

definition raf :: "host \<Rightarrow> host" where
  "raf h = h\<lparr>trace := trace h @ [FrameWait]\<rparr>"

definition now :: "host \<Rightarrow> rat \<times> host" where
  "now h = (perfNow h (reads h), h\<lparr>reads := Suc (reads h)\<rparr>)"

definition maybeGC :: "host \<Rightarrow> host" where
  "maybeGC h = (if hasGC h then raf (h\<lparr>trace := trace h @ [GcCall]\<rparr>) else h)"

definition readMemory :: "host \<Rightarrow> MemorySample option \<times> host" where
  "readMemory h =
     (case perfMemory h of
        None \<Rightarrow> (None, h)
      | Some mem \<Rightarrow>
          (case mem (reads h) of
             (usedSize, totalSize, sizeLimit) \<Rightarrow>
               (Some \<lparr>usedJSHeapSize = Some usedSize, totalJSHeapSize = Some totalSize,
                       jsHeapSizeLimit = Some sizeLimit\<rparr>,
                h\<lparr>reads := Suc (reads h)\<rparr>)))"

section \<open>Presentation: \<^verbatim>\<open>toFixed\<close>, \<^verbatim>\<open>formatMs\<close>, \<^verbatim>\<open>formatBytes\<close>, \<^verbatim>\<open>memDelta\<close>\<close>

definition digitChar :: "nat \<Rightarrow> char" where
  "digitChar d = ''0123456789'' ! d"

text \<open>The decimal digits of a natural number (\<^verbatim>\<open>"0"\<close> for zero).\<close>

fun decimal :: "nat \<Rightarrow> string" where
  "decimal n = (if n < 10 then [digitChar n] else decimal (n div 10) @ [digitChar (n mod 10)])"

declare decimal.simps [simp del]

text \<open>
  \<^verbatim>\<open>Number.prototype.toFixed(f)\<close> on a finite number, step by step as ECMAScript defines it:
  the sign is split off; at \<open>10\<^sup>2\<^sup>1\<close> and above the result is \<^verbatim>\<open>Number::toString\<close>
  (exponential notation, which is taken as the parameter \<open>numberToString\<close>); below, \<open>n\<close> is
  the integer nearest to \<open>x * 10^f\<close> (the larger one on a tie), written in decimal, padded
  with zeros to \<open>f + 1\<close> digits and split by a point before the last \<open>f\<close> digits.
\<close>

definition toFixed :: "(rat \<Rightarrow> string) \<Rightarrow> rat \<Rightarrow> nat \<Rightarrow> string" where
  "toFixed numberToString x0 f =
     (let s = (if x0 < 0 then ''-'' else '''');
          x = (if x0 < 0 then - x0 else x0);
          m = (if 10 ^ 21 \<le> x then numberToString x
               else let n = nat \<lfloor>x * 10 ^ f + 1 / 2\<rfloor>;
                        m = decimal n
                    in if f \<noteq> 0 then
                         let k = length m;
                             m = (if k \<le> f then replicate (f + 1 - k) (CHR ''0'') @ m else m);
                             k = (if k \<le> f then f + 1 else k)
                         in take (k - f) m @ ''.'' @ drop (k - f) m
                       else m)
      in s @ m)"

text \<open>\<^verbatim>\<open>formatMs\<close>; \<^verbatim>\<open>toFixed\<close> prints a number that is not finite by its name.\<close>

definition formatMs :: "(rat \<Rightarrow> string) \<Rightarrow> number \<Rightarrow> string" where
  "formatMs numberToString ms =
     (case ms of
        Finite x \<Rightarrow> toFixed numberToString x 2
      | NaN \<Rightarrow> ''NaN''
      | PosInfinity \<Rightarrow> ''Infinity''
      | NegInfinity \<Rightarrow> ''-Infinity'') @ '' ms''"

definition units :: "string list" where
  "units = [''B'', ''KB'', ''MB'', ''GB'']"

text \<open>The \<^verbatim>\<open>while\<close> loop of \<^verbatim>\<open>formatBytes\<close> on its two variables \<^verbatim>\<open>v\<close> and \<^verbatim>\<open>i\<close>.\<close>

function scaleLoop :: "rat \<Rightarrow> nat \<Rightarrow> rat \<times> nat" where
  "scaleLoop v i =
     (if 1024 \<le> v \<and> i < length units - 1 then scaleLoop (v / 1024) (i + 1) else (v, i))"
  by pat_completeness auto
termination
  by (relation "measure (\<lambda>(v, i). length units - 1 - i)") auto

declare scaleLoop.simps [simp del]

definition formatBytes :: "(rat \<Rightarrow> string) \<Rightarrow> int option \<Rightarrow> string" where
  "formatBytes numberToString bytes =
     (case bytes of
        None \<Rightarrow> ''-''
      | Some b \<Rightarrow>
          let sign = (if b < 0 then ''-'' else '''');
              abs' = \<bar>of_int b :: rat\<bar>;
              (v, i) = scaleLoop abs' 0
          in sign @ toFixed numberToString v 2 @ '' '' @ units ! i)"

text \<open>\<^verbatim>\<open>a?.usedJSHeapSize\<close>: \<^verbatim>\<open>undefined\<close> when the sample or its field is missing.\<close>

definition usedOf :: "MemorySample option \<Rightarrow> int option" where
  "usedOf a = (case a of None \<Rightarrow> None | Some s \<Rightarrow> usedJSHeapSize s)"

definition memDelta :: "MemorySample option \<Rightarrow> MemorySample option \<Rightarrow> int option" where
  "memDelta a b =
     (let av = usedOf a;
          bv = usedOf b
      in if av = None \<or> bv = None then None else Some (the bv - the av))"

text \<open>
  Binary unit scaling in the words of the specification: the unit is the largest of B, KB,
  MB, GB whose size does not exceed the magnitude (B below 1024), the magnitude is divided by
  1024 once per step up, printed with two decimals, and a negative delta keeps its sign.
\<close>

definition unitStep :: "rat \<Rightarrow> nat" where
  "unitStep a = (if a < 1024 then 0 else if a < 1024 ^ 2 then 1 else if a < 1024 ^ 3 then 2 else 3)"

definition scaledBytes :: "(rat \<Rightarrow> string) \<Rightarrow> int \<Rightarrow> string" where
  "scaledBytes numberToString d =
     (if d < 0 then ''-'' else '''')
     @ toFixed numberToString (\<bar>of_int d\<bar> / 1024 ^ unitStep \<bar>of_int d\<bar>) 2
     @ '' '' @ units ! unitStep \<bar>of_int d\<bar>"

text \<open>A number printed with exactly two decimals: the hundredths \<open>n\<close> as integer part, point,
  two digits.\<close>

definition twoDecimals :: "nat \<Rightarrow> string" where
  "twoDecimals n = decimal (n div 100) @ ''.'' @ [digitChar (n div 10 mod 10), digitChar (n mod 10)]"

section \<open>The prop generator\<close>

text \<open>\<^verbatim>\<open>arr[i]\<close>: \<^verbatim>\<open>undefined\<close> outside the array.\<close>

definition elementAt :: "'a list \<Rightarrow> int \<Rightarrow> 'a option" where
  "elementAt arr i = (if 0 \<le> i \<and> i < int (length arr) then Some (arr ! nat i) else None)"

definition Math_random :: "host \<Rightarrow> rat \<times> host" where
  "Math_random h = (randomSource h (reads h), h\<lparr>reads := Suc (reads h)\<rparr>)"

definition pick :: "jsval list \<Rightarrow> host \<Rightarrow> jsval \<times> host" where
  "pick arr h =
     (case Math_random h of
        (r, h') \<Rightarrow>
          ((case elementAt arr \<lfloor>r * of_nat (length arr)\<rfloor> of
              None \<Rightarrow> Undefined
            | Some v \<Rightarrow> v), h'))"

definition maybe :: "jsval \<Rightarrow> rat \<Rightarrow> host \<Rightarrow> jsval \<times> host" where
  "maybe v probability h =
     (case Math_random h of (r, h') \<Rightarrow> ((if r < probability then v else Undefined), h'))"

definition directions :: "jsval list" where
  "directions = [Str ''horizontal'', Str ''horizontal-reverse'', Str ''vertical'',
                 Str ''vertical-reverse'']"

definition aligns :: "jsval list" where
  "aligns = [Str ''stretch'', Str ''center'', Str ''flex-start'', Str ''flex-end'', Str ''start'',
             Str ''end'', Str ''baseline'']"

definition justifies :: "jsval list" where
  "justifies = [Str ''flex-start'', Str ''center'', Str ''flex-end'', Str ''space-between'',
                Str ''space-around'', Str ''space-evenly'', Str ''start'', Str ''end'',
                Str ''left'', Str ''right'']"

definition wraps :: "jsval list" where
  "wraps = [Str ''nowrap'', Str ''wrap'', Str ''wrap-reverse'']"

definition gaps :: "jsval list" where
  "gaps = [Num 0, Num 2, Num 4, Num 8, Num 12, Num 16, Num 24]"

definition paddings :: "jsval list" where
  "paddings = [Num 0, Num 2, Num 4, Num 8, Num 12, Num 16, Num 24]"

definition sizes :: "jsval list" where
  "sizes = [Num 120, Num 240, Num 360, Num 480, Num 640]"

definition flexChoices :: "jsval list" where
  "flexChoices = [Num 0, Num 1, Num 2, Num 3, Str ''0 1 auto'']"

text \<open>\<^verbatim>\<open>buildRandomProps\<close>: twelve draws, in the order of the source (in
  \<^verbatim>\<open>maybe(pick(sizes), 0.35)\<close> the argument is drawn first). The probabilities 0.35 and 0.4
  are taken as the fractions they denote.\<close>

definition buildRandomProps :: "host \<Rightarrow> PropSet \<times> host" where
  "buildRandomProps h0 =
     (case pick directions h0 of (direction, h1) \<Rightarrow>
      case pick aligns h1 of (align, h2) \<Rightarrow>
      case pick justifies h2 of (justify, h3) \<Rightarrow>
      case pick wraps h3 of (wrap, h4) \<Rightarrow>
      case pick gaps h4 of (gap, h5) \<Rightarrow>
      case pick paddings h5 of (padding, h6) \<Rightarrow>
      let next0 = [''direction'' \<mapsto> direction, ''align'' \<mapsto> align, ''justify'' \<mapsto> justify,
                   ''wrap'' \<mapsto> wrap, ''gap'' \<mapsto> gap, ''padding'' \<mapsto> padding]
      in
      case pick sizes h6 of (ws, h7) \<Rightarrow>
      case maybe ws (35 / 100) h7 of (w, h8) \<Rightarrow>
      let next1 = (if w \<noteq> Undefined then next0(''width'' \<mapsto> w) else next0) in
      case pick sizes h8 of (hs, h9) \<Rightarrow>
      case maybe hs (35 / 100) h9 of (hh, h10) \<Rightarrow>
      let next2 = (if hh \<noteq> Undefined then next1(''height'' \<mapsto> hh) else next1) in
      case pick flexChoices h10 of (fs, h11) \<Rightarrow>
      case maybe fs (4 / 10) h11 of (f, h12) \<Rightarrow>
      let next3 = (if f \<noteq> Undefined then next2(''flex'' \<mapsto> f) else next2) in
      (next3, h12))"

definition buildFixedProps :: PropSet where
  "buildFixedProps =
     [''direction'' \<mapsto> Str ''horizontal'', ''gap'' \<mapsto> Num 8, ''padding'' \<mapsto> Num 8,
      ''justify'' \<mapsto> Str ''space-between'', ''align'' \<mapsto> Str ''center'',
      ''wrap'' \<mapsto> Str ''wrap'']"

text \<open>The \<^verbatim>\<open>for\<close> loop of \<^verbatim>\<open>buildPropsList\<close> on \<^verbatim>\<open>i\<close> and \<^verbatim>\<open>list\<close>.\<close>

function buildPropsLoop :: "ui \<Rightarrow> int \<Rightarrow> PropSet list \<Rightarrow> host \<Rightarrow> PropSet list \<times> host" where
  "buildPropsLoop u i list h =
     (if i < flexboxCount u then
        (case (if randomPropsEnabled u then buildRandomProps h else (buildFixedProps, h)) of
           (p, h') \<Rightarrow> buildPropsLoop u (i + 1) (list @ [p]) h')
      else (list, h))"
  by pat_completeness auto
termination
  by (relation "measure (\<lambda>(u, i, list, h). nat (flexboxCount u - i))") auto

declare buildPropsLoop.simps [simp del]

definition buildPropsList :: "ui \<Rightarrow> host \<Rightarrow> PropSet list \<times> host" where
  "buildPropsList u h = buildPropsLoop u 0 [] h"

text \<open>The number of \<^verbatim>\<open>Math.random()\<close> calls that one call of \<^verbatim>\<open>buildPropsList\<close> makes: twelve
  for each prop set in randomized mode, none in fixed mode.\<close>

definition drawsPerList :: "ui \<Rightarrow> nat" where
  "drawsPerList u = (if randomPropsEnabled u then 12 * nat (flexboxCount u) else 0)"

section \<open>The result store\<close>

definition cases :: "(string \<times> impl) list" where
  "cases = [(''local(FlexBasic)'', FlexBasic),
            (''native(WebComponent)'', NativeFlexBasicElement),
            (''react-layout-kit(Flexbox)'', RlkFlexbox)]"

text \<open>\<^verbatim>\<open>Array.prototype.findIndex\<close>: the first index that satisfies the test, or \<open>-1\<close>.\<close>

fun findIndex :: "('a \<Rightarrow> bool) \<Rightarrow> 'a list \<Rightarrow> int" where
  "findIndex P [] = - 1"
| "findIndex P (x # xs) =
     (if P x then 0 else (let j = findIndex P xs in if j < 0 then - 1 else j + 1))"

text \<open>\<^verbatim>\<open>prev ? [...prev] : []\<close>.\<close>

definition storedList :: "CaseResult list option \<Rightarrow> CaseResult list" where
  "storedList prev = (case prev of None \<Rightarrow> [] | Some p \<Rightarrow> p)"

text \<open>The updater that \<^verbatim>\<open>upsertResult\<close> hands to \<^verbatim>\<open>setResults\<close>, and \<^verbatim>\<open>upsertResult\<close>.\<close>

definition upsertUpdater :: "CaseResult \<Rightarrow> CaseResult list option \<Rightarrow> CaseResult list" where
  "upsertUpdater next prev =
     (let list = storedList prev;
          idx = findIndex (\<lambda>r. CaseResult.name r = CaseResult.name next) list
      in if 0 \<le> idx then list[nat idx := next] else list @ [next])"

definition upsertResult :: "CaseResult \<Rightarrow> ui \<Rightarrow> ui" where
  "upsertResult next u = u\<lparr>results := Some (upsertUpdater next (results u))\<rparr>"

text \<open>The Clear button: \<^verbatim>\<open>setResults(null)\<close>.\<close>

definition clearResults :: "ui \<Rightarrow> ui" where
  "clearResults u = u\<lparr>results := None\<rparr>"

text \<open>The states the store can be in: \<^verbatim>\<open>null\<close> at first and after Clear, and whatever an
  upsert makes of such a state.\<close>

inductive storeState :: "CaseResult list option \<Rightarrow> bool" where
  initial: "storeState None"
| upserted: "storeState s \<Longrightarrow> storeState (Some (upsertUpdater r s))"

section \<open>Element trees\<close>

text \<open>A key as React stores it (\<^verbatim>\<open>'' + key\<close>).\<close>

definition keyString :: "jsval \<Rightarrow> string" where
  "keyString v =
     (case v of
        Num i \<Rightarrow> (if i < 0 then ''-'' @ decimal (nat (- i)) else decimal (nat i))
      | Str s \<Rightarrow> s
      | Undefined \<Rightarrow> ''undefined''
      | Obj kvs \<Rightarrow> ''[object Object]'')"

text \<open>\<^verbatim>\<open>React.createElement(type, config, children)\<close> with one children argument: the key is
  taken out of the config (a missing or \<^verbatim>\<open>undefined\<close> key is no key), the rest are the props.
  Props that are functions (\<^verbatim>\<open>onCommitted\<close>, \<^verbatim>\<open>onRender\<close>) are not part of the descriptor here.\<close>

definition createElement :: "etype \<Rightarrow> PropSet option \<Rightarrow> element list \<Rightarrow> element" where
  "createElement t config children =
     (case config of
        None \<Rightarrow> Element t None Map.empty children
      | Some c \<Rightarrow>
          Element t
            (case c ''key'' of None \<Rightarrow> None | Some Undefined \<Rightarrow> None | Some k \<Rightarrow> Some (keyString k))
            (c |` (- {''key''}))
            children)"

text \<open>\<^verbatim>\<open>Array.from({ length: n }, f)\<close> for a callback \<open>f\<close> that reads the browser: the length is
  \<open>n\<close>, or 0 when \<open>n\<close> is negative. (The largest length an array can have is not modelled.)\<close>

primrec arrayFromLoop :: "nat \<Rightarrow> (host \<Rightarrow> 'a \<times> host) \<Rightarrow> host \<Rightarrow> 'a list \<times> host" where
  "arrayFromLoop 0 f h = ([], h)"
| "arrayFromLoop (Suc k) f h =
     (case f h of (x, h') \<Rightarrow> (case arrayFromLoop k f h' of (xs, h'') \<Rightarrow> (x # xs, h'')))"

definition arrayFrom :: "int \<Rightarrow> (host \<Rightarrow> 'a \<times> host) \<Rightarrow> host \<Rightarrow> 'a list \<times> host" where
  "arrayFrom len f h = arrayFromLoop (nat len) f h"

definition buildChildren :: "int \<Rightarrow> element list" where
  "buildChildren count =
     map (\<lambda>i. createElement (Host ''div'')
                 (Some [''key'' \<mapsto> Num (int i),
                        ''style'' \<mapsto> Obj [(''width'', Num 4), (''height'', Num 4)]])
                 [])
         [0..<nat count]"

text \<open>\<^verbatim>\<open>propsList.map((p, idx) => React.createElement(Impl, { ...p, key: idx }, buildChildren(itemsPerFlexbox)))\<close>,
  the expression shared by \<^verbatim>\<open>buildBenchmarkTree\<close> and \<^verbatim>\<open>runCreateOnlyForest\<close>.\<close>

definition implElements :: "ui \<Rightarrow> impl \<Rightarrow> PropSet list \<Rightarrow> element list" where
  "implElements u Impl propsList =
     map (\<lambda>(idx, p). createElement (Component Impl) (Some (p(''key'' \<mapsto> Num (int idx))))
                        (buildChildren (itemsPerFlexbox u)))
         (enumerate 0 propsList)"

definition buildBenchmarkTree :: "ui \<Rightarrow> impl \<Rightarrow> PropSet list \<Rightarrow> element" where
  "buildBenchmarkTree u Impl propsList =
     (let children = implElements u Impl propsList
                     @ [createElement MountSignal (Some [''key'' \<mapsto> Str ''__m'']) []]
      in createElement Profiler (Some [''id'' \<mapsto> Str ''bench''])
           [createElement Fragment None children])"

text \<open>\<^verbatim>\<open>React.isValidElement\<close> on the variable \<^verbatim>\<open>last\<close>, which holds \<^verbatim>\<open>null\<close> (\<open>None\<close>) or an
  element that \<^verbatim>\<open>createElement\<close> returned.\<close>

definition isValidElement :: "element option \<Rightarrow> bool" where
  "isValidElement v = (case v of None \<Rightarrow> False | Some e \<Rightarrow> True)"

section \<open>The creation-only phase\<close>

text \<open>The quotient \<^verbatim>\<open>total / count\<close> of a finite total by a count.\<close>

definition jsDivide :: "rat \<Rightarrow> int \<Rightarrow> number" where
  "jsDivide x d =
     (if d = 0 then (if x = 0 then NaN else if 0 < x then PosInfinity else NegInfinity)
      else Finite (x / of_int d))"

text \<open>The \<^verbatim>\<open>for\<close> loop of \<^verbatim>\<open>runCreateOnlyForest\<close> on \<^verbatim>\<open>i\<close> and \<^verbatim>\<open>last\<close> (here \<open>last'\<close>).\<close>

function createLoop :: "ui \<Rightarrow> impl \<Rightarrow> PropSet list \<Rightarrow> int \<Rightarrow> int \<Rightarrow> element option \<Rightarrow> element option" where
  "createLoop u Impl propsList iterations i last' =
     (if i < iterations then
        createLoop u Impl propsList iterations (i + 1)
          (Some (createElement Fragment None (implElements u Impl propsList)))
      else last')"
  by pat_completeness auto
termination
  by (relation "measure (\<lambda>(u, Impl, propsList, iterations, i, last'). nat (iterations - i))") auto

declare createLoop.simps [simp del]

definition runCreateOnlyForest ::
  "ui \<Rightarrow> string \<Rightarrow> impl \<Rightarrow> PropSet list \<Rightarrow> int \<Rightarrow> host \<Rightarrow> CreateResult outcome \<times> host" where
  "runCreateOnlyForest u nm Impl propsList iterations h0 =
     (let h1 = maybeGC h0 in
      case readMemory h1 of (before, h2) \<Rightarrow>
      case now h2 of (start, h3) \<Rightarrow>
      let last' = createLoop u Impl propsList iterations 0 None in
      if \<not> isValidElement last' then (Thrown (Error ''create-only sanity check failed''), h3)
      else
        case now h3 of (end', h4) \<Rightarrow>
        let h5 = maybeGC h4 in
        case readMemory h5 of (afterCreate, h6) \<Rightarrow>
        let total = end' - start in
        (Returned \<lparr>CreateResult.name = nm,
                    CreateResult.createOnlyMsTotal = total,
                    CreateResult.createOnlyMsPerOp = jsDivide total iterations,
                    CreateResult.memory =
                      Some \<lparr>createBefore = before, createAfter = afterCreate,
                            mountBefore = None, mountAfter = None\<rparr>\<rparr>,
         h6))"

section \<open>The update-batch phase\<close>

text \<open>\<^verbatim>\<open>cleanupEmotionStyleTags\<close>: every \<^verbatim>\<open>style[data-emotion]\<close> element whose trimmed key
  starts with \<^verbatim>\<open>css\<close> is removed. (Of the white space that \<^verbatim>\<open>trim\<close> strips, the ASCII
  characters are modelled.)\<close>

definition isWhiteSpace :: "char \<Rightarrow> bool" where
  "isWhiteSpace c = (c \<in> set [CHR 0x09, CHR 0x0A, CHR 0x0B, CHR 0x0C, CHR 0x0D, CHR 0x20])"

definition trim :: "string \<Rightarrow> string" where
  "trim s = rev (dropWhile isWhiteSpace (rev (dropWhile isWhiteSpace s)))"

definition startsWith :: "string \<Rightarrow> string \<Rightarrow> bool" where
  "startsWith s p = (take (length p) s = p)"

definition cleanupEmotionStyleTags :: "host \<Rightarrow> host" where
  "cleanupEmotionStyleTags h =
     h\<lparr>styles := filter (\<lambda>key. \<not> startsWith (trim key) ''css'') (styles h)\<rparr>"

text \<open>
  \<^verbatim>\<open>renderAndWait\<close>, the closure over \<^verbatim>\<open>root\<close>; \<open>idx\<close> is the place of the root's container in
  \<open>body\<close>. The argument is \<open>None\<close> when the caller read past the end of \<^verbatim>\<open>propsLists\<close>
  (\<^verbatim>\<open>undefined\<close>): then \<^verbatim>\<open>propsList.map\<close> in \<^verbatim>\<open>buildBenchmarkTree\<close> throws a \<^verbatim>\<open>TypeError\<close>, after
  \<^verbatim>\<open>t0\<close> was read and before \<^verbatim>\<open>root.render\<close> is called.
\<close>

definition mapOfUndefined :: string where
  "mapOfUndefined = ''Cannot read properties of undefined (reading 'map')''"

definition renderAndWait ::
  "ui \<Rightarrow> impl \<Rightarrow> nat \<Rightarrow> PropSet list option \<Rightarrow> host \<Rightarrow> (rat \<times> rat) outcome \<times> host" where
  "renderAndWait u Impl idx nextPropsList h0 =
     (case now h0 of (t0, h1) \<Rightarrow>
      case nextPropsList of
        None \<Rightarrow> (Thrown (TypeError mapOfUndefined), h1)
      | Some propsList \<Rightarrow>
          let tree = buildBenchmarkTree u Impl propsList in
          (case reactCommit h1 (reads h1) of
             None \<Rightarrow> (Pending, h1\<lparr>reads := Suc (reads h1)\<rparr>)
           | Some (durations, injected) \<Rightarrow>
               let actualDurationMs = sum_list durations;
                   h2 = h1\<lparr>reads := Suc (reads h1),
                           body := (body h1)[idx := (body h1 ! idx)\<lparr>rendered := Some tree\<rparr>],
                           styles := styles h1 @ injected\<rparr>;
                   h3 = raf h2
               in case now h3 of (t1, h4) \<Rightarrow> (Returned (t1 - t0, actualDurationMs), h4)))"

text \<open>The measured \<^verbatim>\<open>for\<close> loop on \<^verbatim>\<open>i\<close>, \<^verbatim>\<open>wallTotal\<close> and \<^verbatim>\<open>actualTotal\<close>.\<close>

function updateLoop ::
  "ui \<Rightarrow> impl \<Rightarrow> nat \<Rightarrow> PropSet list list \<Rightarrow> int \<Rightarrow> int \<Rightarrow> rat \<Rightarrow> rat \<Rightarrow> host
     \<Rightarrow> (rat \<times> rat) outcome \<times> host" where
  "updateLoop u Impl idx propsLists loops i wallTotal actualTotal h =
     (if i < loops then
        (case renderAndWait u Impl idx (elementAt propsLists (i + 1)) h of
           (Returned (wallMs, actualDurationMs), h') \<Rightarrow>
             updateLoop u Impl idx propsLists loops (i + 1) (wallTotal + wallMs)
               (actualTotal + actualDurationMs) h'
         | (Thrown e, h') \<Rightarrow> (Thrown e, h')
         | (Pending, h') \<Rightarrow> (Pending, h'))
      else (Returned (wallTotal, actualTotal), h))"
  by pat_completeness auto
termination
  by (relation "measure (\<lambda>(u, Impl, idx, propsLists, loops, i, wallTotal, actualTotal, h).
                            nat (loops - i))") auto

declare updateLoop.simps [simp del]

definition runUpdateBatchKeepMounted ::
  "ui \<Rightarrow> string \<Rightarrow> impl \<Rightarrow> PropSet list list \<Rightarrow> int \<Rightarrow> host \<Rightarrow> UpdateResult outcome \<times> host" where
  "runUpdateBatchKeepMounted u nm Impl propsLists loops h0 =
     (if int (length propsLists) < loops + 1 then
        (Thrown (Error ''propsLists must include warmup + loops''), h0)
      else
        let container = \<lparr>stylePosition = ''absolute'', styleLeft = ''-10000px'', styleTop = ''0'',
                           rendered = None\<rparr>;
            idx = length (body h0);
            h1 = h0\<lparr>body := body h0 @ [container]\<rparr>
        in
        case renderAndWait u Impl idx (elementAt propsLists 0) h1 of
          (Thrown e, h2) \<Rightarrow> (Thrown e, h2)
        | (Pending, h2) \<Rightarrow> (Pending, h2)
        | (Returned warmup, h2) \<Rightarrow>
            let h3 = maybeGC h2 in
            case readMemory h3 of (before, h4) \<Rightarrow>
            case updateLoop u Impl idx propsLists loops 0 0 0 h4 of
              (Thrown e, h5) \<Rightarrow> (Thrown e, h5)
            | (Pending, h5) \<Rightarrow> (Pending, h5)
            | (Returned (wallTotal, actualTotal), h5) \<Rightarrow>
                let h6 = maybeGC h5 in
                case readMemory h6 of (after, h7) \<Rightarrow>
                let h8 = h7\<lparr>body := take idx (body h7) @ drop (Suc idx) (body h7)\<rparr>;
                    h9 = raf h8;
                    h10 = cleanupEmotionStyleTags h9;
                    h11 = maybeGC h10
                in
                (Returned \<lparr>UpdateResult.name = nm,
                            UpdateResult.updateMsTotal = wallTotal,
                            UpdateResult.updateMsPerOp = jsDivide wallTotal loops,
                            UpdateResult.reactActualDurationMsTotal = actualTotal,
                            UpdateResult.memory =
                              Some \<lparr>createBefore = None, createAfter = None,
                                    mountBefore = before, mountAfter = after\<rparr>\<rparr>,
                 h11))"

section \<open>The per-case driver\<close>

text \<open>The message the \<^verbatim>\<open>catch\<close> clause shows: both kinds of exception are instances of
  \<^verbatim>\<open>Error\<close>, so it is \<^verbatim>\<open>e.message\<close>.\<close>

definition message :: "exn \<Rightarrow> string" where
  "message e = (case e of Error m \<Rightarrow> m | TypeError m \<Rightarrow> m)"

text \<open>\<^verbatim>\<open>Array.from({ length: mountLoops + 1 }, () => buildPropsList())\<close>.\<close>

definition propsListsForUpdate :: "ui \<Rightarrow> host \<Rightarrow> PropSet list list \<times> host" where
  "propsListsForUpdate u h = arrayFrom (mountLoops u + 1) (buildPropsList u) h"

text \<open>\<^verbatim>\<open>memory?.field\<close> on an optional \<^verbatim>\<open>memory\<close> object.\<close>

definition memoryField :: "(Memory \<Rightarrow> MemorySample option) \<Rightarrow> Memory option \<Rightarrow> MemorySample option" where
  "memoryField field m = (case m of None \<Rightarrow> None | Some mem \<Rightarrow> field mem)"

text \<open>The \<^verbatim>\<open>try\<close> block of \<^verbatim>\<open>runOne\<close>. It hands back the component state as it stands when
  the block ends or throws. \<^verbatim>\<open>console.table\<close> is recorded with the result it prints.\<close>

definition tryBlock :: "string \<Rightarrow> ui \<Rightarrow> host \<Rightarrow> unit outcome \<times> ui \<times> host" where
  "tryBlock nm u h0 =
     (let h1 = raf h0 in
      case find (\<lambda>x. fst x = nm) cases of
        None \<Rightarrow> (Thrown (Error (''Unknown case: '' @ nm)), u, h1)
      | Some c \<Rightarrow>
          (case buildPropsList u h1 of (propsList, h2) \<Rightarrow>
           case propsListsForUpdate u h2 of (propsLists, h3) \<Rightarrow>
           case runCreateOnlyForest u (fst c) (snd c) propsList (createIterations u) h3 of
             (Thrown e, h4) \<Rightarrow> (Thrown e, u, h4)
           | (Pending, h4) \<Rightarrow> (Pending, u, h4)
           | (Returned create, h4) \<Rightarrow>
               (case runUpdateBatchKeepMounted u (fst c) (snd c) propsLists (mountLoops u) h4 of
                  (Thrown e, h5) \<Rightarrow> (Thrown e, u, h5)
                | (Pending, h5) \<Rightarrow> (Pending, u, h5)
                | (Returned update, h5) \<Rightarrow>
                    let merged =
                          \<lparr>CaseResult.name = fst c,
                           createOnlyMsTotal = CreateResult.createOnlyMsTotal create,
                           createOnlyMsPerOp = CreateResult.createOnlyMsPerOp create,
                           updateMsTotal = UpdateResult.updateMsTotal update,
                           updateMsPerOp = UpdateResult.updateMsPerOp update,
                           reactActualDurationMsTotal =
                             UpdateResult.reactActualDurationMsTotal update,
                           memory =
                             Some \<lparr>createBefore = memoryField createBefore (CreateResult.memory create),
                                   createAfter = memoryField createAfter (CreateResult.memory create),
                                   mountBefore = memoryField mountBefore (UpdateResult.memory update),
                                   mountAfter = memoryField mountAfter (UpdateResult.memory update)\<rparr>\<rparr>;
                        u' = upsertResult merged u;
                        h6 = h5\<lparr>trace := trace h5 @ [ConsoleTable merged]\<rparr>
                    in (Returned (), u', h6))))"

text \<open>The state setters \<^verbatim>\<open>setError\<close> and \<^verbatim>\<open>setRunning\<close>.\<close>

definition setError :: "string option \<Rightarrow> ui \<Rightarrow> ui" where
  "setError v u = u\<lparr>error := v\<rparr>"

definition setRunning :: "bool \<Rightarrow> ui \<Rightarrow> ui" where
  "setRunning v u = u\<lparr>running := v\<rparr>"

text \<open>\<^verbatim>\<open>runOne\<close>: \<^verbatim>\<open>setError(null)\<close>, \<^verbatim>\<open>setRunning(true)\<close>, the \<^verbatim>\<open>try\<close> block, \<^verbatim>\<open>catch\<close> and \<^verbatim>\<open>finally\<close>.
  While the block is suspended for ever neither clause runs.\<close>

definition runOne :: "string \<Rightarrow> ui \<Rightarrow> host \<Rightarrow> unit outcome \<times> ui \<times> host" where
  "runOne nm u0 h0 =
     (let u1 = setError None u0;
          u2 = setRunning True u1
      in case tryBlock nm u2 h0 of
           (Returned x, u3, h1) \<Rightarrow> (Returned (), setRunning False u3, h1)
         | (Thrown e, u3, h1) \<Rightarrow>
             (let msg = message e;
                  u4 = setError (Some msg) u3
              in (Returned (), setRunning False u4, h1))
         | (Pending, u3, h1) \<Rightarrow> (Pending, u3, h1))"

section \<open>Concrete inputs\<close>

text \<open>A result, a component state and a browser on which the theorems below are
  evaluated: the browser has the garbage-collection hook and heap counters, its clock
  advances by one per reading, every random draw is one half, and every render commits
  after the profiler reported one millisecond.\<close>

definition exampleResult :: "string \<Rightarrow> rat \<Rightarrow> CaseResult" where
  "exampleResult nm t =
     \<lparr>CaseResult.name = nm, createOnlyMsTotal = t, createOnlyMsPerOp = Finite t,
      updateMsTotal = t, updateMsPerOp = Finite t, reactActualDurationMsTotal = t,
      memory = None\<rparr>"

definition exampleUi :: ui where
  "exampleUi =
     \<lparr>running = False, results = None, error = None, createIterations = 2, mountLoops = 1,
      flexboxCount = 1, itemsPerFlexbox = 1, randomPropsEnabled = False\<rparr>"

definition exampleHost :: host where
  "exampleHost =
     \<lparr>hasGC = True,
      perfMemory = Some (\<lambda>n. (1000 * int n, 5000000, 9000000)),
      perfNow = (\<lambda>n. of_nat n),
      randomSource = (\<lambda>n. 1 / 2),
      reactCommit = (\<lambda>n. Some ([1], [])),
      reads = 0, trace = [], body = [], styles = []\<rparr>"

section \<open>Presentation of byte deltas\<close>

lemma floor_rat_numeral: "\<lfloor>numeral a / numeral b :: rat\<rfloor> = numeral a div numeral b"
  by (metis floor_divide_of_int_eq of_int_numeral)

lemma scaleLoop_stop: "v < 1024 \<or> 3 \<le> i \<Longrightarrow> scaleLoop v i = (v, i)"
  by (subst scaleLoop.simps) (auto simp add: units_def)

lemma scaleLoop_step: "1024 \<le> v \<Longrightarrow> i < 3 \<Longrightarrow> scaleLoop v i = scaleLoop (v / 1024) (Suc i)"
  by (subst scaleLoop.simps) (simp add: units_def)

lemma scaleLoop_unitStep: "scaleLoop a 0 = (a / 1024 ^ unitStep a, unitStep a)"
proof -
  consider "a < 1024" | "1024 \<le> a" "a < 1024 ^ 2" | "1024 ^ 2 \<le> a" "a < 1024 ^ 3" | "1024 ^ 3 \<le> a"
    by linarith
  then show ?thesis
  proof cases
    case 1
    then show ?thesis by (simp add: scaleLoop_stop unitStep_def)
  next
    case 2
    then have "a / 1024 < 1024" by simp
    with 2 show ?thesis by (simp add: scaleLoop_step scaleLoop_stop unitStep_def)
  next
    case 3
    then have a: "1024 \<le> a" "1024 \<le> a / 1024" "a / 1024 / 1024 < 1024" by simp_all
    from 3 have u: "unitStep a = 2" by (simp add: unitStep_def)
    show ?thesis
      using a by (simp add: scaleLoop_step scaleLoop_stop u numeral_2_eq_2)
  next
    case 4
    then have a: "1024 \<le> a" "1024 \<le> a / 1024" "1024 \<le> a / 1024 / 1024" by simp_all
    from 4 have u: "unitStep a = 3" by (simp add: unitStep_def)
    show ?thesis
      using a by (simp add: scaleLoop_step scaleLoop_stop u numeral_3_eq_3)
  qed
qed

lemma formatBytes_scaled: "formatBytes ts (Some d) = scaledBytes ts d"
  by (simp add: formatBytes_def scaledBytes_def scaleLoop_unitStep Let_def)

lemma decimal_digit: "n < 10 \<Longrightarrow> decimal n = [digitChar n]"
  by (subst decimal.simps) simp

lemma decimal_more: "10 \<le> n \<Longrightarrow> decimal n = decimal (n div 10) @ [digitChar (n mod 10)]"
  by (subst decimal.simps) simp

lemma decimal_nonempty: "decimal n \<noteq> []"
  by (subst decimal.simps) simp

lemma digitChar_0: "digitChar 0 = CHR ''0''"
  by (simp add: digitChar_def)

lemma toFixed_twoDecimals:
  assumes "0 \<le> x" "x < 10 ^ 21"
  shows "toFixed ts x 2 = twoDecimals (nat \<lfloor>x * 100 + 1 / 2\<rfloor>)"
proof -
  define n where "n = nat \<lfloor>x * 100 + 1 / 2\<rfloor>"
  have fixed: "toFixed ts x 2 =
      (let m = decimal n; k = length m;
           m' = (if k \<le> 2 then replicate (3 - k) (CHR ''0'') @ m else m);
           k' = (if k \<le> 2 then 3 else k)
       in take (k' - 2) m' @ ''.'' @ drop (k' - 2) m')"
    using assms by (simp add: toFixed_def n_def Let_def)
  consider "n < 10" | "10 \<le> n" "n < 100" | "100 \<le> n" by linarith
  then have "toFixed ts x 2 = twoDecimals n"
  proof cases
    case 1
    then show ?thesis
      by (simp add: fixed twoDecimals_def decimal_digit digitChar_0 numeral_3_eq_3)
  next
    case 2
    then have "n div 10 < 10" by simp
    with 2 show ?thesis
      by (simp add: fixed twoDecimals_def decimal_more decimal_digit digitChar_0)
  next
    case 3
    have h: "n div 10 div 10 = n div 100"
      by (simp add: div_mult2_eq [symmetric])
    from 3 have d: "decimal n = decimal (n div 100) @ [digitChar (n div 10 mod 10), digitChar (n mod 10)]"
      by (simp add: decimal_more [of n] decimal_more [of "n div 10"] h)
    have "decimal (n div 100) \<noteq> []" by (rule decimal_nonempty)
    then have l: "\<not> length (decimal n) \<le> 2" "length (decimal n) - 2 = length (decimal (n div 100))"
      by (simp_all add: d)
    show ?thesis
      by (simp add: fixed Let_def l twoDecimals_def) (simp add: d)
  qed
  then show ?thesis by (simp add: n_def)
qed

lemma memDelta_absent: "usedOf a = None \<or> usedOf b = None \<Longrightarrow> memDelta a b = None"
  by (simp add: memDelta_def Let_def)

lemma memDelta_present: "usedOf a = Some x \<Longrightarrow> usedOf b = Some y \<Longrightarrow> memDelta a b = Some (y - x)"
  by (simp add: memDelta_def Let_def)

lemma formatBytes_example: "scaledBytes ts 48576 = ''47.44 KB''"
proof -
  have u: "unitStep 48576 = 1" by (simp add: unitStep_def)
  have t: "toFixed ts (48576 / 1024) 2 = ''47.44''"
    by (subst toFixed_twoDecimals)
      (simp_all add: floor_rat_numeral twoDecimals_def decimal_more decimal_digit digitChar_def)
  show ?thesis
    using t by (simp add: scaledBytes_def u units_def)
qed

text \<open>
  Claim C3, as the code has it. For every pair of memory samples: when the used-heap count of
  either is missing, \<^verbatim>\<open>formatBytes(memDelta(a, b))\<close> is the marker \<^verbatim>\<open>-\<close>, which is neither
  \<^verbatim>\<open>NaN\<close> nor \<^verbatim>\<open>0.00 B\<close>; when both are present, the difference \<open>y - x\<close> is printed with binary
  unit scaling (\<open>scaledBytes\<close>: sign, magnitude divided by 1024 once per unit step, unit among
  B, KB, MB, GB), and \<^verbatim>\<open>toFixed(2)\<close> prints a magnitude below \<open>10\<^sup>2\<^sup>1\<close> with exactly two
  decimals, rounded to the nearest hundredth. The delta from 1,000,000 to 1,048,576 used
  bytes is 48,576 bytes and is printed as \<^verbatim>\<open>47.44 KB\<close>.
\<close>

theorem memDelta_formatBytes_presentation:
  "(usedOf a = None \<or> usedOf b = None \<longrightarrow>
      formatBytes ts (memDelta a b) = ''-''
      \<and> formatBytes ts (memDelta a b) \<noteq> ''NaN''
      \<and> formatBytes ts (memDelta a b) \<noteq> ''0.00 B'')
   \<and> (usedOf a = Some x \<and> usedOf b = Some y \<longrightarrow>
      formatBytes ts (memDelta a b) = scaledBytes ts (y - x))
   \<and> (0 \<le> v \<and> v < 10 ^ 21 \<longrightarrow>
      toFixed ts v 2 = twoDecimals (nat \<lfloor>v * 100 + 1 / 2\<rfloor>))
   \<and> formatBytes ts
         (memDelta
            (Some \<lparr>usedJSHeapSize = Some 1000000, totalJSHeapSize = t1, jsHeapSizeLimit = l1\<rparr>)
            (Some \<lparr>usedJSHeapSize = Some 1048576, totalJSHeapSize = t2, jsHeapSizeLimit = l2\<rparr>))
       = ''47.44 KB''"
proof (intro conjI impI)
  assume "usedOf a = None \<or> usedOf b = None"
  then have m: "memDelta a b = None" by (rule memDelta_absent)
  show "formatBytes ts (memDelta a b) = ''-''" by (simp add: m formatBytes_def)
  show "formatBytes ts (memDelta a b) \<noteq> ''NaN''" by (simp add: m formatBytes_def)
  show "formatBytes ts (memDelta a b) \<noteq> ''0.00 B''" by (simp add: m formatBytes_def)
next
  assume "usedOf a = Some x \<and> usedOf b = Some y"
  then show "formatBytes ts (memDelta a b) = scaledBytes ts (y - x)"
    by (simp add: memDelta_present formatBytes_scaled)
next
  assume "0 \<le> v \<and> v < 10 ^ 21"
  then show "toFixed ts v 2 = twoDecimals (nat \<lfloor>v * 100 + 1 / 2\<rfloor>)"
    by (simp add: toFixed_twoDecimals)
next
  show "formatBytes ts
         (memDelta
            (Some \<lparr>usedJSHeapSize = Some 1000000, totalJSHeapSize = t1, jsHeapSizeLimit = l1\<rparr>)
            (Some \<lparr>usedJSHeapSize = Some 1048576, totalJSHeapSize = t2, jsHeapSizeLimit = l2\<rparr>))
       = ''47.44 KB''"
    by (simp add: memDelta_def usedOf_def formatBytes_scaled formatBytes_example)
qed

theorem memDelta_formatBytes_presentation_witness:
  "formatBytes (\<lambda>v. []) (memDelta None None) = ''-''
   \<and> formatBytes (\<lambda>v. [])
         (memDelta
            (Some \<lparr>usedJSHeapSize = Some 5000, totalJSHeapSize = None, jsHeapSizeLimit = None\<rparr>)
            (Some \<lparr>usedJSHeapSize = Some 2952, totalJSHeapSize = None, jsHeapSizeLimit = None\<rparr>))
       = ''-2.00 KB''
   \<and> toFixed (\<lambda>v. []) (3 / 2) 2 = ''1.50''"
proof -
  have absent: "usedOf None = None \<or> usedOf None = None"
    by (simp add: usedOf_def)
  have present:
    "usedOf (Some \<lparr>usedJSHeapSize = Some 5000, totalJSHeapSize = None, jsHeapSizeLimit = None\<rparr>)
       = Some 5000
     \<and> usedOf (Some \<lparr>usedJSHeapSize = Some 2952, totalJSHeapSize = None, jsHeapSizeLimit = None\<rparr>)
       = Some 2952"
    by (simp add: usedOf_def)
  have range: "(0::rat) \<le> 3 / 2 \<and> (3 / 2 :: rat) < 10 ^ 21"
    by simp
  have u: "unitStep 2048 = 1" by (simp add: unitStep_def)
  have two: "toFixed (\<lambda>v. []) 2 2 = ''2.00''"
    by (subst toFixed_twoDecimals)
      (simp_all add: floor_rat_numeral twoDecimals_def decimal_more decimal_digit digitChar_def)
  have scaled: "scaledBytes (\<lambda>v. []) (2952 - 5000) = ''-2.00 KB''"
    by (simp add: scaledBytes_def u two units_def)
  have r: "nat \<lfloor>(3 / 2 :: rat) * 100 + 1 / 2\<rfloor> = 150"
    by (simp add: floor_rat_numeral)
  have dec: "twoDecimals 150 = ''1.50''"
    by (simp add: twoDecimals_def decimal_more decimal_digit digitChar_def)
  show ?thesis
    using memDelta_formatBytes_presentation [of None None "\<lambda>v. []"]
      memDelta_formatBytes_presentation
        [of "Some \<lparr>usedJSHeapSize = Some 5000, totalJSHeapSize = None, jsHeapSizeLimit = None\<rparr>"
            "Some \<lparr>usedJSHeapSize = Some 2952, totalJSHeapSize = None, jsHeapSizeLimit = None\<rparr>"
            "\<lambda>v. []" 5000 2952 "3 / 2"]
      absent present range scaled r dec
    by simp
qed

text \<open>
  The example of claim C3 as the specification words it does not hold: the delta from
  1,000,000 to 1,048,576 used bytes is scaled once (to KB) and its value there is 47.4375,
  not a value below 2.
\<close>

theorem example_delta_not_below_two_KB:
  "formatBytes (\<lambda>v. [])
     (memDelta
        (Some \<lparr>usedJSHeapSize = Some 1000000, totalJSHeapSize = None, jsHeapSizeLimit = None\<rparr>)
        (Some \<lparr>usedJSHeapSize = Some 1048576, totalJSHeapSize = None, jsHeapSizeLimit = None\<rparr>))
     = ''47.44 KB''
   \<and> snd (scaleLoop \<bar>rat_of_int (1048576 - 1000000)\<bar> 0) = 1
   \<and> \<not> fst (scaleLoop \<bar>rat_of_int (1048576 - 1000000)\<bar> 0) < 2"
proof -
  have u: "unitStep 48576 = 1" by (simp add: unitStep_def)
  show ?thesis
    by (simp add: memDelta_def usedOf_def formatBytes_scaled formatBytes_example
        scaleLoop_unitStep u)
qed

section \<open>Upserts into the result store\<close>
















lemma storeState_clearResults: "storeState (results (clearResults u))"
  by (simp add: clearResults_def storeState.initial)



section \<open>Settling\<close>

text \<open>
  Claim C4, as the code has it. When the garbage-collection hook is available, \<^verbatim>\<open>maybeGC\<close>
  calls it and then waits for one animation frame, and does nothing else. When the hook is
  absent, that is not an error and \<^verbatim>\<open>maybeGC\<close> does nothing at all: it does not wait for a
  frame.
\<close>

theorem maybeGC_effect:
  "(hasGC h \<longrightarrow> maybeGC h = h\<lparr>trace := trace h @ [GcCall, FrameWait]\<rparr>)
   \<and> (\<not> hasGC h \<longrightarrow> maybeGC h = h)"
  by (simp add: maybeGC_def raf_def)

theorem maybeGC_effect_witness:
  "hasGC exampleHost
   \<and> trace (maybeGC exampleHost) = [GcCall, FrameWait]
   \<and> \<not> hasGC (exampleHost\<lparr>hasGC := False\<rparr>)
   \<and> maybeGC (exampleHost\<lparr>hasGC := False\<rparr>) = exampleHost\<lparr>hasGC := False\<rparr>"
  using maybeGC_effect [of exampleHost] maybeGC_effect [of "exampleHost\<lparr>hasGC := False\<rparr>"]
  by (simp add: exampleHost_def)

text \<open>
  Claim C4 as the specification words it does not hold: in a browser without the hook,
  \<^verbatim>\<open>maybeGC\<close> returns with no frame awaited.
\<close>

theorem maybeGC_without_hook_waits_for_no_frame:
  "\<not> hasGC (exampleHost\<lparr>hasGC := False\<rparr>)
   \<and> FrameWait \<notin> set (trace (maybeGC (exampleHost\<lparr>hasGC := False\<rparr>)))
   \<and> trace (maybeGC (exampleHost\<lparr>hasGC := False\<rparr>)) = trace (exampleHost\<lparr>hasGC := False\<rparr>)"
  by (simp add: maybeGC_def exampleHost_def)

section \<open>Prop generation in fixed mode\<close>

lemma buildPropsLoop_fixed:
  "\<not> randomPropsEnabled u \<Longrightarrow>
     buildPropsLoop u i list h = (list @ replicate (nat (flexboxCount u - i)) buildFixedProps, h)"
proof (induction u i list h rule: buildPropsLoop.induct)
  case (1 u i list h)
  show ?case
  proof (cases "i < flexboxCount u")
    case True
    then have n: "nat (flexboxCount u - i) = Suc (nat (flexboxCount u - (i + 1)))"
      by simp
    from True "1.prems" have
      "buildPropsLoop u i list h = buildPropsLoop u (i + 1) (list @ [buildFixedProps]) h"
      by (subst buildPropsLoop.simps) simp
    also have "\<dots> = ((list @ [buildFixedProps])
        @ replicate (nat (flexboxCount u - (i + 1))) buildFixedProps, h)"
      using True "1.prems" by (intro "1.IH") simp_all
    finally show ?thesis by (simp add: n)
  next
    case False
    then show ?thesis by (subst buildPropsLoop.simps) simp
  qed
qed

lemma buildPropsList_fixed:
  "\<not> randomPropsEnabled u \<Longrightarrow>
     buildPropsList u h = (replicate (nat (flexboxCount u)) buildFixedProps, h)"
  by (simp add: buildPropsList_def buildPropsLoop_fixed)

text \<open>
  Claim C6. With randomization disabled and a container count \<open>N \<ge> 0\<close>, \<^verbatim>\<open>buildPropsList\<close>
  returns a list of exactly \<open>N\<close> prop sets, each equal to
  \<^verbatim>\<open>{direction: 'horizontal', gap: 8, padding: 8, justify: 'space-between', align: 'center', wrap: 'wrap'}\<close>;
  the list is the same whatever the browser's state at the call, and the call reads nothing
  from the browser.
\<close>

theorem buildPropsList_fixed_mode:
  assumes "\<not> randomPropsEnabled u" and "0 \<le> flexboxCount u"
  shows "int (length (fst (buildPropsList u h))) = flexboxCount u
    \<and> (\<forall>p \<in> set (fst (buildPropsList u h)).
          p = [''direction'' \<mapsto> Str ''horizontal'', ''gap'' \<mapsto> Num 8, ''padding'' \<mapsto> Num 8,
               ''justify'' \<mapsto> Str ''space-between'', ''align'' \<mapsto> Str ''center'',
               ''wrap'' \<mapsto> Str ''wrap''])
    \<and> fst (buildPropsList u h') = fst (buildPropsList u h)
    \<and> snd (buildPropsList u h) = h"
  using assms by (simp add: buildPropsList_fixed buildFixedProps_def)

theorem buildPropsList_fixed_mode_witness:
  "\<not> randomPropsEnabled (exampleUi\<lparr>flexboxCount := 3\<rparr>)
   \<and> 0 \<le> flexboxCount (exampleUi\<lparr>flexboxCount := 3\<rparr>)
   \<and> length (fst (buildPropsList (exampleUi\<lparr>flexboxCount := 3\<rparr>) exampleHost)) = 3
   \<and> fst (buildPropsList (exampleUi\<lparr>flexboxCount := 3\<rparr>) exampleHost)
       = [buildFixedProps, buildFixedProps, buildFixedProps]
   \<and> snd (buildPropsList (exampleUi\<lparr>flexboxCount := 3\<rparr>) exampleHost) = exampleHost"
proof -
  have a: "\<not> randomPropsEnabled (exampleUi\<lparr>flexboxCount := 3\<rparr>)"
    by (simp add: exampleUi_def)
  have b: "0 \<le> flexboxCount (exampleUi\<lparr>flexboxCount := 3\<rparr>)"
    by simp
  have c: "fst (buildPropsList (exampleUi\<lparr>flexboxCount := 3\<rparr>) exampleHost)
       = [buildFixedProps, buildFixedProps, buildFixedProps]"
    by (simp add: buildPropsList_fixed a numeral_3_eq_3)
  show ?thesis
    using buildPropsList_fixed_mode [OF a b, of exampleHost exampleHost] a c by simp
qed

section \<open>Prop generation in randomized mode\<close>

lemma floor_index:
  fixes r :: rat
  assumes "0 \<le> r" "r < 1" "0 < n"
  shows "0 \<le> \<lfloor>r * of_nat n\<rfloor> \<and> \<lfloor>r * of_nat n\<rfloor> < int n"
proof -
  have "0 \<le> r * of_nat n" using assms by simp
  then have lo: "0 \<le> \<lfloor>r * of_nat n\<rfloor>" by simp
  have "r * of_nat n < 1 * of_nat n"
    using assms by (intro mult_strict_right_mono) simp_all
  then have "r * of_nat n < of_int (int n)" by simp
  then have "\<lfloor>r * of_nat n\<rfloor> < int n" by (simp only: floor_less_iff)
  with lo show ?thesis by simp
qed

lemma pick_result:
  assumes "0 \<le> randomSource h (reads h)" "randomSource h (reads h) < 1" "arr \<noteq> []"
  shows "\<exists>v \<in> set arr. pick arr h = (v, h\<lparr>reads := Suc (reads h)\<rparr>)"
proof -
  let ?i = "\<lfloor>randomSource h (reads h) * of_nat (length arr)\<rfloor>"
  from assms have i: "0 \<le> ?i \<and> ?i < int (length arr)"
    by (intro floor_index) simp_all
  then have "pick arr h = (arr ! nat ?i, h\<lparr>reads := Suc (reads h)\<rparr>)"
    by (simp add: pick_def Math_random_def elementAt_def)
  moreover from i have "nat ?i < length arr" by (simp only: nat_less_iff)
  then have "arr ! nat ?i \<in> set arr" by (rule nth_mem)
  ultimately show ?thesis by blast
qed

lemma maybe_result:
  "\<exists>w \<in> {v, Undefined}. maybe v p h = (w, h\<lparr>reads := Suc (reads h)\<rparr>)"
  by (simp add: maybe_def Math_random_def)

lemma pick_at:
  assumes "\<forall>n. 0 \<le> randomSource h n \<and> randomSource h n < 1" "arr \<noteq> []"
  shows "\<exists>v \<in> set arr. pick arr (h\<lparr>reads := k\<rparr>) = (v, h\<lparr>reads := Suc k\<rparr>)"
  using pick_result [of "h\<lparr>reads := k\<rparr>" arr] assms by simp

lemma maybe_at:
  "\<exists>w \<in> {v, Undefined}. maybe v p (h\<lparr>reads := k\<rparr>) = (w, h\<lparr>reads := Suc k\<rparr>)"
  using maybe_result [of v p "h\<lparr>reads := k\<rparr>"] by simp

lemma buildRandomProps_shape:
  assumes "\<forall>n. 0 \<le> randomSource h n \<and> randomSource h n < 1"
  obtains d a j w g p ws wm hs hm fs fm where
    "d \<in> set directions" "a \<in> set aligns" "j \<in> set justifies" "w \<in> set wraps"
    "g \<in> set gaps" "p \<in> set paddings"
    "ws \<in> set sizes" "wm \<in> {ws, Undefined}"
    "hs \<in> set sizes" "hm \<in> {hs, Undefined}"
    "fs \<in> set flexChoices" "fm \<in> {fs, Undefined}"
    "buildRandomProps h =
          ((let next0 = [''direction'' \<mapsto> d, ''align'' \<mapsto> a, ''justify'' \<mapsto> j,
                         ''wrap'' \<mapsto> w, ''gap'' \<mapsto> g, ''padding'' \<mapsto> p];
                next1 = (if wm \<noteq> Undefined then next0(''width'' \<mapsto> wm) else next0);
                next2 = (if hm \<noteq> Undefined then next1(''height'' \<mapsto> hm) else next1)
            in (if fm \<noteq> Undefined then next2(''flex'' \<mapsto> fm) else next2)),
           h\<lparr>reads := reads h + 12\<rparr>)"
proof -
  let ?k = "reads h"
  have ne_directions: "directions \<noteq> []" by (simp add: directions_def)
  have ne_aligns: "aligns \<noteq> []" by (simp add: aligns_def)
  have ne_justifies: "justifies \<noteq> []" by (simp add: justifies_def)
  have ne_wraps: "wraps \<noteq> []" by (simp add: wraps_def)
  have ne_gaps: "gaps \<noteq> []" by (simp add: gaps_def)
  have ne_paddings: "paddings \<noteq> []" by (simp add: paddings_def)
  have ne_sizes: "sizes \<noteq> []" by (simp add: sizes_def)
  have ne_flexChoices: "flexChoices \<noteq> []" by (simp add: flexChoices_def)
  from pick_at [OF assms(1) ne_directions, where k = ?k] obtain d where
    d: "d \<in> set directions" "pick directions h = (d, h\<lparr>reads := Suc ?k\<rparr>)"
    by auto
  from pick_at [OF assms(1) ne_aligns, where k = "Suc ?k"] obtain a where
    a: "a \<in> set aligns" "pick aligns (h\<lparr>reads := Suc ?k\<rparr>) = (a, h\<lparr>reads := ?k + 2\<rparr>)"
    by auto
  from pick_at [OF assms(1) ne_justifies, where k = "?k + 2"] obtain j where
    j: "j \<in> set justifies" "pick justifies (h\<lparr>reads := ?k + 2\<rparr>) = (j, h\<lparr>reads := ?k + 3\<rparr>)"
    by auto
  from pick_at [OF assms(1) ne_wraps, where k = "?k + 3"] obtain w where
    w: "w \<in> set wraps" "pick wraps (h\<lparr>reads := ?k + 3\<rparr>) = (w, h\<lparr>reads := ?k + 4\<rparr>)"
    by auto
  from pick_at [OF assms(1) ne_gaps, where k = "?k + 4"] obtain g where
    g: "g \<in> set gaps" "pick gaps (h\<lparr>reads := ?k + 4\<rparr>) = (g, h\<lparr>reads := ?k + 5\<rparr>)"
    by auto
  from pick_at [OF assms(1) ne_paddings, where k = "?k + 5"] obtain p where
    p: "p \<in> set paddings" "pick paddings (h\<lparr>reads := ?k + 5\<rparr>) = (p, h\<lparr>reads := ?k + 6\<rparr>)"
    by auto
  from pick_at [OF assms(1) ne_sizes, where k = "?k + 6"] obtain ws where
    ws: "ws \<in> set sizes" "pick sizes (h\<lparr>reads := ?k + 6\<rparr>) = (ws, h\<lparr>reads := ?k + 7\<rparr>)"
    by auto
  from maybe_at [where v = ws and p = "35 / 100" and h = h and k = "?k + 7"] obtain wm where
    wm: "wm \<in> {ws, Undefined}"
      "maybe ws (35 / 100) (h\<lparr>reads := ?k + 7\<rparr>) = (wm, h\<lparr>reads := ?k + 8\<rparr>)"
    by auto
  from pick_at [OF assms(1) ne_sizes, where k = "?k + 8"] obtain hs where
    hs: "hs \<in> set sizes" "pick sizes (h\<lparr>reads := ?k + 8\<rparr>) = (hs, h\<lparr>reads := ?k + 9\<rparr>)"
    by auto
  from maybe_at [where v = hs and p = "35 / 100" and h = h and k = "?k + 9"] obtain hm where
    hm: "hm \<in> {hs, Undefined}"
      "maybe hs (35 / 100) (h\<lparr>reads := ?k + 9\<rparr>) = (hm, h\<lparr>reads := ?k + 10\<rparr>)"
    by auto
  from pick_at [OF assms(1) ne_flexChoices, where k = "?k + 10"] obtain fs where
    fs: "fs \<in> set flexChoices"
      "pick flexChoices (h\<lparr>reads := ?k + 10\<rparr>) = (fs, h\<lparr>reads := ?k + 11\<rparr>)"
    by auto
  from maybe_at [where v = fs and p = "4 / 10" and h = h and k = "?k + 11"] obtain fm where
    fm: "fm \<in> {fs, Undefined}"
      "maybe fs (4 / 10) (h\<lparr>reads := ?k + 11\<rparr>) = (fm, h\<lparr>reads := ?k + 12\<rparr>)"
    by auto
  have eq: "buildRandomProps h =
          ((let next0 = [''direction'' \<mapsto> d, ''align'' \<mapsto> a, ''justify'' \<mapsto> j,
                         ''wrap'' \<mapsto> w, ''gap'' \<mapsto> g, ''padding'' \<mapsto> p];
                next1 = (if wm \<noteq> Undefined then next0(''width'' \<mapsto> wm) else next0);
                next2 = (if hm \<noteq> Undefined then next1(''height'' \<mapsto> hm) else next1)
            in (if fm \<noteq> Undefined then next2(''flex'' \<mapsto> fm) else next2)),
           h\<lparr>reads := reads h + 12\<rparr>)"
    unfolding buildRandomProps_def
    by (simp only: d(2) a(2) j(2) w(2) g(2) p(2) ws(2) wm(2) hs(2) hm(2) fs(2) fm(2)
        prod.case Let_def)
  show ?thesis
    by (rule that [OF d(1) a(1) j(1) w(1) g(1) p(1) ws(1) wm(1) hs(1) hm(1) fs(1) fm(1) eq])
qed

lemma map_if_apply: "(if c then m(k \<mapsto> v) else m) x = (if c \<and> x = k then Some v else m x)"
  by simp

text \<open>
  Claim C7. Whatever values in \<open>[0, 1)\<close> the random source returns, the prop set that
  \<^verbatim>\<open>buildRandomProps\<close> builds has direction, align, justify, wrap, gap and padding, each
  drawn from its enumeration; width and height, when present, are among 120, 240, 360, 480
  and 640; flex, when present, is among 0, 1, 2, 3 and \<^verbatim>\<open>'0 1 auto'\<close>; and it has no other
  key.
\<close>

theorem buildRandomProps_enumerations:
  assumes "\<forall>n. 0 \<le> randomSource h n \<and> randomSource h n < 1"
  shows "fst (buildRandomProps h) ''direction''
        \<in> Some ` Str ` {''horizontal'', ''horizontal-reverse'', ''vertical'', ''vertical-reverse''}
    \<and> fst (buildRandomProps h) ''align''
        \<in> Some ` Str ` {''stretch'', ''center'', ''flex-start'', ''flex-end'', ''start'', ''end'',
                        ''baseline''}
    \<and> fst (buildRandomProps h) ''justify''
        \<in> Some ` Str ` {''flex-start'', ''center'', ''flex-end'', ''space-between'',
                        ''space-around'', ''space-evenly'', ''start'', ''end'', ''left'', ''right''}
    \<and> fst (buildRandomProps h) ''wrap'' \<in> Some ` Str ` {''nowrap'', ''wrap'', ''wrap-reverse''}
    \<and> fst (buildRandomProps h) ''gap'' \<in> Some ` Num ` {0, 2, 4, 8, 12, 16, 24}
    \<and> fst (buildRandomProps h) ''padding'' \<in> Some ` Num ` {0, 2, 4, 8, 12, 16, 24}
    \<and> fst (buildRandomProps h) ''width'' \<in> insert None (Some ` Num ` {120, 240, 360, 480, 640})
    \<and> fst (buildRandomProps h) ''height'' \<in> insert None (Some ` Num ` {120, 240, 360, 480, 640})
    \<and> fst (buildRandomProps h) ''flex''
        \<in> insert None (Some ` {Num 0, Num 1, Num 2, Num 3, Str ''0 1 auto''})
    \<and> dom (fst (buildRandomProps h))
        \<subseteq> {''direction'', ''align'', ''justify'', ''wrap'', ''gap'', ''padding'', ''width'',
            ''height'', ''flex''}"
proof -
  from buildRandomProps_shape [OF assms] obtain d a j w g p ws wm hs hm fs fm where
    d: "d \<in> set directions" and a: "a \<in> set aligns" and j: "j \<in> set justifies"
    and w: "w \<in> set wraps" and g: "g \<in> set gaps" and p: "p \<in> set paddings"
    and ws: "ws \<in> set sizes" and wm: "wm \<in> {ws, Undefined}"
    and hs: "hs \<in> set sizes" and hm: "hm \<in> {hs, Undefined}"
    and fs: "fs \<in> set flexChoices" and fm: "fm \<in> {fs, Undefined}"
    and eq: "buildRandomProps h =
          ((let next0 = [''direction'' \<mapsto> d, ''align'' \<mapsto> a, ''justify'' \<mapsto> j,
                         ''wrap'' \<mapsto> w, ''gap'' \<mapsto> g, ''padding'' \<mapsto> p];
                next1 = (if wm \<noteq> Undefined then next0(''width'' \<mapsto> wm) else next0);
                next2 = (if hm \<noteq> Undefined then next1(''height'' \<mapsto> hm) else next1)
            in (if fm \<noteq> Undefined then next2(''flex'' \<mapsto> fm) else next2)),
           h\<lparr>reads := reads h + 12\<rparr>)"
    by blast
  let ?p = "fst (buildRandomProps h)"
  have direction: "?p ''direction'' = Some d" by (simp add: eq Let_def map_if_apply)
  have align: "?p ''align'' = Some a" by (simp add: eq Let_def map_if_apply)
  have justify: "?p ''justify'' = Some j" by (simp add: eq Let_def map_if_apply)
  have wrap: "?p ''wrap'' = Some w" by (simp add: eq Let_def map_if_apply)
  have gap: "?p ''gap'' = Some g" by (simp add: eq Let_def map_if_apply)
  have padding: "?p ''padding'' = Some p" by (simp add: eq Let_def map_if_apply)
  have width: "?p ''width'' = (if wm \<noteq> Undefined then Some wm else None)"
    by (simp add: eq Let_def map_if_apply)
  have height: "?p ''height'' = (if hm \<noteq> Undefined then Some hm else None)"
    by (simp add: eq Let_def map_if_apply)
  have flex: "?p ''flex'' = (if fm \<noteq> Undefined then Some fm else None)"
    by (simp add: eq Let_def map_if_apply)
  have keys: "dom ?p \<subseteq> {''direction'', ''align'', ''justify'', ''wrap'', ''gap'', ''padding'',
      ''width'', ''height'', ''flex''}"
    by (simp add: eq Let_def subset_iff dom_def map_if_apply)
  have c1: "?p ''direction''
        \<in> Some ` Str ` {''horizontal'', ''horizontal-reverse'', ''vertical'', ''vertical-reverse''}"
    using d by (auto simp: direction directions_def)
  have c2: "?p ''align''
        \<in> Some ` Str ` {''stretch'', ''center'', ''flex-start'', ''flex-end'', ''start'', ''end'',
                        ''baseline''}"
    using a by (auto simp: align aligns_def)
  have c3: "?p ''justify''
        \<in> Some ` Str ` {''flex-start'', ''center'', ''flex-end'', ''space-between'',
                        ''space-around'', ''space-evenly'', ''start'', ''end'', ''left'', ''right''}"
    using j by (auto simp: justify justifies_def)
  have c4: "?p ''wrap'' \<in> Some ` Str ` {''nowrap'', ''wrap'', ''wrap-reverse''}"
    using w by (auto simp: wrap wraps_def)
  have c5: "?p ''gap'' \<in> Some ` Num ` {0, 2, 4, 8, 12, 16, 24}"
    using g by (auto simp: gap gaps_def)
  have c6: "?p ''padding'' \<in> Some ` Num ` {0, 2, 4, 8, 12, 16, 24}"
    using p by (auto simp: padding paddings_def)
  have c7: "?p ''width'' \<in> insert None (Some ` Num ` {120, 240, 360, 480, 640})"
    using ws wm by (auto simp: width sizes_def)
  have c8: "?p ''height'' \<in> insert None (Some ` Num ` {120, 240, 360, 480, 640})"
    using hs hm by (auto simp: height sizes_def)
  have c9: "?p ''flex'' \<in> insert None (Some ` {Num 0, Num 1, Num 2, Num 3, Str ''0 1 auto''})"
    using fs fm by (auto simp: flex flexChoices_def)
  from c1 c2 c3 c4 c5 c6 c7 c8 c9 keys show ?thesis by (intro conjI)
qed

lemma buildRandomProps_quarter:
  "fst (buildRandomProps (exampleHost\<lparr>randomSource := \<lambda>n. 1 / 4\<rparr>))
     = [''direction'' \<mapsto> Str ''horizontal-reverse'', ''align'' \<mapsto> Str ''center'',
        ''justify'' \<mapsto> Str ''flex-end'', ''wrap'' \<mapsto> Str ''nowrap'', ''gap'' \<mapsto> Num 2,
        ''padding'' \<mapsto> Num 2, ''width'' \<mapsto> Num 240, ''height'' \<mapsto> Num 240,
        ''flex'' \<mapsto> Num 1]"
  by (simp add: buildRandomProps_def pick_def maybe_def Math_random_def elementAt_def
      exampleHost_def directions_def aligns_def justifies_def wraps_def gaps_def paddings_def
      sizes_def flexChoices_def floor_rat_numeral)

theorem buildRandomProps_enumerations_witness:
  "(\<forall>n. 0 \<le> randomSource (exampleHost\<lparr>randomSource := \<lambda>n. 1 / 4\<rparr>) n
         \<and> randomSource (exampleHost\<lparr>randomSource := \<lambda>n. 1 / 4\<rparr>) n < 1)
   \<and> fst (buildRandomProps (exampleHost\<lparr>randomSource := \<lambda>n. 1 / 4\<rparr>)) ''direction''
       = Some (Str ''horizontal-reverse'')
   \<and> fst (buildRandomProps (exampleHost\<lparr>randomSource := \<lambda>n. 1 / 4\<rparr>)) ''width''
       = Some (Num 240)
   \<and> fst (buildRandomProps (exampleHost\<lparr>randomSource := \<lambda>n. 1 / 4\<rparr>)) ''flex''
       = Some (Num 1)
   \<and> fst (buildRandomProps exampleHost) ''height'' = None"
proof -
  have r: "\<forall>n. 0 \<le> randomSource (exampleHost\<lparr>randomSource := \<lambda>n. 1 / 4\<rparr>) n
         \<and> randomSource (exampleHost\<lparr>randomSource := \<lambda>n. 1 / 4\<rparr>) n < 1"
    by simp
  have half: "fst (buildRandomProps exampleHost) ''height'' = None"
    by (simp add: buildRandomProps_def pick_def maybe_def Math_random_def elementAt_def
      exampleHost_def directions_def aligns_def justifies_def wraps_def gaps_def paddings_def
      sizes_def flexChoices_def floor_rat_numeral)
  show ?thesis
    using buildRandomProps_enumerations [OF r] r half
    by (simp add: buildRandomProps_quarter)
qed

section \<open>What generating props reads from the browser\<close>

lemma pick_host: "\<exists>v. pick arr (h\<lparr>reads := k\<rparr>) = (v, h\<lparr>reads := Suc k\<rparr>)"
  by (simp add: pick_def Math_random_def)

lemma buildRandomProps_host: "snd (buildRandomProps h) = h\<lparr>reads := reads h + 12\<rparr>"
proof -
  let ?k = "reads h"
  from pick_host [where arr = directions and h = h and k = ?k] obtain d where
    d: "pick directions h = (d, h\<lparr>reads := Suc ?k\<rparr>)" by auto
  from pick_host [where arr = aligns and h = h and k = "Suc ?k"] obtain a where
    a: "pick aligns (h\<lparr>reads := Suc ?k\<rparr>) = (a, h\<lparr>reads := ?k + 2\<rparr>)" by auto
  from pick_host [where arr = justifies and h = h and k = "?k + 2"] obtain j where
    j: "pick justifies (h\<lparr>reads := ?k + 2\<rparr>) = (j, h\<lparr>reads := ?k + 3\<rparr>)" by auto
  from pick_host [where arr = wraps and h = h and k = "?k + 3"] obtain w where
    w: "pick wraps (h\<lparr>reads := ?k + 3\<rparr>) = (w, h\<lparr>reads := ?k + 4\<rparr>)" by auto
  from pick_host [where arr = gaps and h = h and k = "?k + 4"] obtain g where
    g: "pick gaps (h\<lparr>reads := ?k + 4\<rparr>) = (g, h\<lparr>reads := ?k + 5\<rparr>)" by auto
  from pick_host [where arr = paddings and h = h and k = "?k + 5"] obtain p where
    p: "pick paddings (h\<lparr>reads := ?k + 5\<rparr>) = (p, h\<lparr>reads := ?k + 6\<rparr>)" by auto
  from pick_host [where arr = sizes and h = h and k = "?k + 6"] obtain ws where
    ws: "pick sizes (h\<lparr>reads := ?k + 6\<rparr>) = (ws, h\<lparr>reads := ?k + 7\<rparr>)" by auto
  from maybe_at [where v = ws and p = "35 / 100" and h = h and k = "?k + 7"] obtain wm where
    wm: "maybe ws (35 / 100) (h\<lparr>reads := ?k + 7\<rparr>) = (wm, h\<lparr>reads := ?k + 8\<rparr>)" by auto
  from pick_host [where arr = sizes and h = h and k = "?k + 8"] obtain hs where
    hs: "pick sizes (h\<lparr>reads := ?k + 8\<rparr>) = (hs, h\<lparr>reads := ?k + 9\<rparr>)" by auto
  from maybe_at [where v = hs and p = "35 / 100" and h = h and k = "?k + 9"] obtain hm where
    hm: "maybe hs (35 / 100) (h\<lparr>reads := ?k + 9\<rparr>) = (hm, h\<lparr>reads := ?k + 10\<rparr>)" by auto
  from pick_host [where arr = flexChoices and h = h and k = "?k + 10"] obtain fs where
    fs: "pick flexChoices (h\<lparr>reads := ?k + 10\<rparr>) = (fs, h\<lparr>reads := ?k + 11\<rparr>)" by auto
  from maybe_at [where v = fs and p = "4 / 10" and h = h and k = "?k + 11"] obtain fm where
    fm: "maybe fs (4 / 10) (h\<lparr>reads := ?k + 11\<rparr>) = (fm, h\<lparr>reads := ?k + 12\<rparr>)" by auto
  show ?thesis
    unfolding buildRandomProps_def
    by (simp only: d a j w g p ws wm hs hm fs fm prod.case Let_def snd_conv)
qed

lemma buildPropsLoop_host:
  "snd (buildPropsLoop u i list h)
     = h\<lparr>reads := reads h + (if randomPropsEnabled u then 12 else 0) * nat (flexboxCount u - i)\<rparr>"
proof (induction u i list h rule: buildPropsLoop.induct)
  case (1 u i list h)
  show ?case
  proof (cases "i < flexboxCount u")
    case False
    then show ?thesis by (subst buildPropsLoop.simps) simp
  next
    case True
    then have n: "nat (flexboxCount u - i) = Suc (nat (flexboxCount u - (i + 1)))" by simp
    show ?thesis
    proof (cases "randomPropsEnabled u")
      case False
      with True have "buildPropsLoop u i list h
          = buildPropsLoop u (i + 1) (list @ [buildFixedProps]) h"
        by (subst buildPropsLoop.simps) simp
      moreover have "snd (buildPropsLoop u (i + 1) (list @ [buildFixedProps]) h)
          = h\<lparr>reads := reads h + (if randomPropsEnabled u then 12 else 0)
                               * nat (flexboxCount u - (i + 1))\<rparr>"
        using True False by (intro "1.IH") simp_all
      ultimately show ?thesis using False by simp
    next
      case rnd: True
      obtain p h' where b: "buildRandomProps h = (p, h')" by (cases "buildRandomProps h")
      then have h': "h' = h\<lparr>reads := reads h + 12\<rparr>"
        using buildRandomProps_host [of h] by simp
      from True rnd b have "buildPropsLoop u i list h = buildPropsLoop u (i + 1) (list @ [p]) h'"
        by (subst buildPropsLoop.simps) simp
      moreover have "snd (buildPropsLoop u (i + 1) (list @ [p]) h')
          = h'\<lparr>reads := reads h' + (if randomPropsEnabled u then 12 else 0)
                               * nat (flexboxCount u - (i + 1))\<rparr>"
        using True rnd b by (intro "1.IH") simp_all
      ultimately show ?thesis using rnd by (simp add: h' n)
    qed
  qed
qed

lemma buildPropsLoop_length:
  "length (fst (buildPropsLoop u i list h)) = length list + nat (flexboxCount u - i)"
proof (induction u i list h rule: buildPropsLoop.induct)
  case (1 u i list h)
  show ?case
  proof (cases "i < flexboxCount u")
    case False
    then show ?thesis by (subst buildPropsLoop.simps) simp
  next
    case True
    then have n: "nat (flexboxCount u - i) = Suc (nat (flexboxCount u - (i + 1)))" by simp
    obtain p h' where b: "(if randomPropsEnabled u then buildRandomProps h else (buildFixedProps, h))
        = (p, h')"
      by (cases "if randomPropsEnabled u then buildRandomProps h else (buildFixedProps, h)")
    with True have "buildPropsLoop u i list h = buildPropsLoop u (i + 1) (list @ [p]) h'"
      by (subst buildPropsLoop.simps) simp
    moreover have "length (fst (buildPropsLoop u (i + 1) (list @ [p]) h'))
        = length (list @ [p]) + nat (flexboxCount u - (i + 1))"
      using True b by (intro "1.IH") simp_all
    ultimately show ?thesis by (simp add: n)
  qed
qed

lemma buildPropsList_host: "snd (buildPropsList u h) = h\<lparr>reads := reads h + drawsPerList u\<rparr>"
  by (simp add: buildPropsList_def buildPropsLoop_host drawsPerList_def)

lemma buildPropsList_length: "length (fst (buildPropsList u h)) = nat (flexboxCount u)"
  by (simp add: buildPropsList_def buildPropsLoop_length)

lemma arrayFromLoop_reads:
  assumes "\<And>h. snd (f h) = h\<lparr>reads := reads h + c\<rparr>"
  shows "arrayFromLoop n f h
     = (map (\<lambda>k. fst (f (h\<lparr>reads := reads h + k * c\<rparr>))) [0..<n],
        h\<lparr>reads := reads h + n * c\<rparr>)"
proof (induction n arbitrary: h)
  case 0
  show ?case by simp
next
  case (Suc n)
  have fh: "f h = (fst (f h), h\<lparr>reads := reads h + c\<rparr>)"
    using assms [of h] by (cases "f h") simp
  have upt: "[0..<Suc n] = 0 # map Suc [0..<n]"
    by (simp only: map_Suc_upt upt_conv_Cons zero_less_Suc)
  have "arrayFromLoop (Suc n) f h
      = (fst (f h) # map (\<lambda>k. fst (f (h\<lparr>reads := reads h + c + k * c\<rparr>))) [0..<n],
         h\<lparr>reads := reads h + c + n * c\<rparr>)"
    by (subst arrayFromLoop.simps, subst fh) (simp add: Suc.IH)
  also have "\<dots> = (map (\<lambda>k. fst (f (h\<lparr>reads := reads h + k * c\<rparr>))) [0..<Suc n],
        h\<lparr>reads := reads h + Suc n * c\<rparr>)"
    by (simp only: upt list.map map_map o_def) (simp add: ac_simps)
  finally show ?case .
qed

lemma propsListsForUpdate_eq:
  "propsListsForUpdate u h
     = (map (\<lambda>k. fst (buildPropsList u (h\<lparr>reads := reads h + k * drawsPerList u\<rparr>)))
          [0..<nat (mountLoops u + 1)],
        h\<lparr>reads := reads h + nat (mountLoops u + 1) * drawsPerList u\<rparr>)"
  unfolding propsListsForUpdate_def arrayFrom_def
  by (rule arrayFromLoop_reads) (rule buildPropsList_host)

section \<open>The update-batch phase: how it ends\<close>

text \<open>
  Claim C1. For every implementation, every array of props lists and every loop count with
  \<^verbatim>\<open>propsLists.length < loops + 1\<close>, \<^verbatim>\<open>runUpdateBatchKeepMounted\<close> throws the configuration
  error at once and leaves the browser exactly as it was: no container is created or
  appended, no root is mounted, nothing is read and no frame is awaited.
\<close>

theorem runUpdateBatchKeepMounted_too_few_lists:
  assumes "int (length propsLists) < loops + 1"
  shows "runUpdateBatchKeepMounted u nm Impl propsLists loops h
           = (Thrown (Error ''propsLists must include warmup + loops''), h)
    \<and> body (snd (runUpdateBatchKeepMounted u nm Impl propsLists loops h)) = body h
    \<and> trace (snd (runUpdateBatchKeepMounted u nm Impl propsLists loops h)) = trace h"
  using assms by (simp add: runUpdateBatchKeepMounted_def)

theorem runUpdateBatchKeepMounted_too_few_lists_witness:
  "int (length [[buildFixedProps], [buildFixedProps]]) < 2 + 1
   \<and> runUpdateBatchKeepMounted exampleUi ''local(FlexBasic)'' FlexBasic
        [[buildFixedProps], [buildFixedProps]] 2 exampleHost
       = (Thrown (Error ''propsLists must include warmup + loops''), exampleHost)"
proof -
  have a: "int (length [[buildFixedProps], [buildFixedProps]]) < 2 + 1" by simp
  show ?thesis
    using runUpdateBatchKeepMounted_too_few_lists
      [OF a, of exampleUi "''local(FlexBasic)''" FlexBasic exampleHost] a
    by simp
qed

lemma renderAndWait_thrown:
  "fst (renderAndWait u Impl idx nextPropsList h) = Thrown e \<Longrightarrow> e = TypeError mapOfUndefined"
  by (auto simp: renderAndWait_def now_def Let_def split: option.splits prod.splits)

lemma renderAndWait_thrown_undefined:
  "fst (renderAndWait u Impl idx (Some propsList) h) \<noteq> Thrown e"
  by (simp add: renderAndWait_def Let_def split: option.splits prod.splits)

lemma updateLoop_stop:
  "loops \<le> i \<Longrightarrow>
     updateLoop u Impl idx propsLists loops i wallTotal actualTotal h
       = (Returned (wallTotal, actualTotal), h)"
  by (subst updateLoop.simps) simp

lemma updateLoop_step:
  "i < loops \<Longrightarrow>
     updateLoop u Impl idx propsLists loops i wallTotal actualTotal h
       = (case renderAndWait u Impl idx (elementAt propsLists (i + 1)) h of
            (Returned (wallMs, actualDurationMs), h') \<Rightarrow>
              updateLoop u Impl idx propsLists loops (i + 1) (wallTotal + wallMs)
                (actualTotal + actualDurationMs) h'
          | (Thrown e, h') \<Rightarrow> (Thrown e, h')
          | (Pending, h') \<Rightarrow> (Pending, h'))"
  by (subst updateLoop.simps) simp

lemma updateLoop_thrown:
  "fst (updateLoop u Impl idx propsLists loops i wallTotal actualTotal h) = Thrown e
     \<Longrightarrow> e = TypeError mapOfUndefined"
proof (induction u Impl idx propsLists loops i wallTotal actualTotal h rule: updateLoop.induct)
  case (1 u Impl idx propsLists loops i wallTotal actualTotal h)
  show ?case
  proof (cases "i < loops")
    case False
    with "1.prems" show ?thesis by (simp add: updateLoop_stop)
  next
    case True
    obtain out h' where r: "renderAndWait u Impl idx (elementAt propsLists (i + 1)) h = (out, h')"
      by (cases "renderAndWait u Impl idx (elementAt propsLists (i + 1)) h")
    show ?thesis
    proof (cases out)
      case (Returned x)
      obtain wallMs actualDurationMs where x: "x = (wallMs, actualDurationMs)" by (cases x)
      from "1.prems" True r Returned x
      have "fst (updateLoop u Impl idx propsLists loops (i + 1) (wallTotal + wallMs)
                  (actualTotal + actualDurationMs) h') = Thrown e"
        by (simp add: updateLoop_step)
      then show ?thesis
        by (rule "1.IH" [OF True r [symmetric] Returned x [symmetric]])
    next
      case (Thrown e')
      with "1.prems" True r have "e' = e" by (simp add: updateLoop_step)
      moreover from r Thrown have "e' = TypeError mapOfUndefined"
        using renderAndWait_thrown [of u Impl idx "elementAt propsLists (i + 1)" h e'] by simp
      ultimately show ?thesis by simp
    next
      case Pending
      with "1.prems" True r show ?thesis by (simp add: updateLoop_step)
    qed
  qed
qed

lemma renderAndWait_thrownD:
  "renderAndWait u Impl idx nextPropsList h = (Thrown e, h') \<Longrightarrow> e = TypeError mapOfUndefined"
  using renderAndWait_thrown [of u Impl idx nextPropsList h e] by simp

lemma updateLoop_thrownD:
  "updateLoop u Impl idx propsLists loops i wallTotal actualTotal h = (Thrown e, h')
     \<Longrightarrow> e = TypeError mapOfUndefined"
  using updateLoop_thrown [of u Impl idx propsLists loops i wallTotal actualTotal h e] by simp

lemma runUpdateBatchKeepMounted_thrown:
  assumes "fst (runUpdateBatchKeepMounted u nm Impl propsLists loops h) = Thrown e"
  shows "(int (length propsLists) < loops + 1 \<and> e = Error ''propsLists must include warmup + loops'')
    \<or> (\<not> int (length propsLists) < loops + 1 \<and> e = TypeError mapOfUndefined)"
proof (cases "int (length propsLists) < loops + 1")
  case True
  with assms show ?thesis by (simp add: runUpdateBatchKeepMounted_def)
next
  case False
  with assms have "e = TypeError mapOfUndefined"
    by (auto simp: runUpdateBatchKeepMounted_def Let_def
        split: prod.splits outcome.splits
        dest: renderAndWait_thrownD updateLoop_thrownD)
  with False show ?thesis by simp
qed

lemma updateLoop_in_range:
  "0 \<le> i \<Longrightarrow> loops + 1 \<le> int (length propsLists) \<Longrightarrow>
     fst (updateLoop u Impl idx propsLists loops i wallTotal actualTotal h) \<noteq> Thrown e"
proof (induction u Impl idx propsLists loops i wallTotal actualTotal h rule: updateLoop.induct)
  case (1 u Impl idx propsLists loops i wallTotal actualTotal h)
  show ?case
  proof (cases "i < loops")
    case False
    then show ?thesis by (simp add: updateLoop_stop)
  next
    case True
    with "1.prems" have at: "elementAt propsLists (i + 1) = Some (propsLists ! nat (i + 1))"
      by (simp add: elementAt_def)
    obtain out h' where r: "renderAndWait u Impl idx (elementAt propsLists (i + 1)) h = (out, h')"
      by (cases "renderAndWait u Impl idx (elementAt propsLists (i + 1)) h")
    show ?thesis
    proof (cases out)
      case (Returned x)
      obtain wallMs actualDurationMs where x: "x = (wallMs, actualDurationMs)" by (cases x)
      have "fst (updateLoop u Impl idx propsLists loops (i + 1) (wallTotal + wallMs)
                  (actualTotal + actualDurationMs) h') \<noteq> Thrown e"
        using "1.prems" by (intro "1.IH" [OF True r [symmetric] Returned x [symmetric]]) simp_all
      with True r Returned x show ?thesis by (simp add: updateLoop_step)
    next
      case (Thrown e')
      with r at show ?thesis
        using renderAndWait_thrown_undefined [of u Impl idx "propsLists ! nat (i + 1)" h e']
        by simp
    next
      case Pending
      with True r show ?thesis by (simp add: updateLoop_step)
    qed
  qed
qed

lemma reactCommit_maybeGC: "reactCommit (maybeGC h) = reactCommit h"
  by (simp add: maybeGC_def raf_def)

lemma reactCommit_readMemory: "reactCommit (snd (readMemory h)) = reactCommit h"
  by (simp add: readMemory_def split: option.splits prod.splits)

lemma reactCommit_now: "reactCommit (snd (now h)) = reactCommit h"
  by (simp add: now_def)

lemma reactCommit_renderAndWait:
  "reactCommit (snd (renderAndWait u Impl idx nextPropsList h)) = reactCommit h"
  by (simp add: renderAndWait_def now_def raf_def Let_def split: option.splits prod.splits)

lemma renderAndWait_pending:
  "fst (renderAndWait u Impl idx nextPropsList h) = Pending \<Longrightarrow> \<exists>n. reactCommit h n = None"
  by (auto simp: renderAndWait_def now_def Let_def split: option.splits prod.splits)

lemma updateLoop_pending:
  "fst (updateLoop u Impl idx propsLists loops i wallTotal actualTotal h) = Pending
     \<Longrightarrow> \<exists>n. reactCommit h n = None"
proof (induction u Impl idx propsLists loops i wallTotal actualTotal h rule: updateLoop.induct)
  case (1 u Impl idx propsLists loops i wallTotal actualTotal h)
  show ?case
  proof (cases "i < loops")
    case False
    with "1.prems" show ?thesis by (simp add: updateLoop_stop)
  next
    case True
    obtain out h' where r: "renderAndWait u Impl idx (elementAt propsLists (i + 1)) h = (out, h')"
      by (cases "renderAndWait u Impl idx (elementAt propsLists (i + 1)) h")
    have same: "reactCommit h' = reactCommit h"
      using reactCommit_renderAndWait [of u Impl idx "elementAt propsLists (i + 1)" h] r by simp
    show ?thesis
    proof (cases out)
      case (Returned x)
      obtain wallMs actualDurationMs where x: "x = (wallMs, actualDurationMs)" by (cases x)
      from "1.prems" True r Returned x
      have "fst (updateLoop u Impl idx propsLists loops (i + 1) (wallTotal + wallMs)
                  (actualTotal + actualDurationMs) h') = Pending"
        by (simp add: updateLoop_step)
      then have "\<exists>n. reactCommit h' n = None"
        by (rule "1.IH" [OF True r [symmetric] Returned x [symmetric]])
      with same show ?thesis by simp
    next
      case (Thrown e)
      with "1.prems" True r show ?thesis by (simp add: updateLoop_step)
    next
      case Pending
      with r have "fst (renderAndWait u Impl idx (elementAt propsLists (i + 1)) h) = Pending"
        by simp
      then show ?thesis by (rule renderAndWait_pending)
    qed
  qed
qed

lemma runUpdateBatchKeepMounted_pending:
  assumes "fst (runUpdateBatchKeepMounted u nm Impl propsLists loops h) = Pending"
  shows "\<exists>n. reactCommit h n = None"
proof (cases "int (length propsLists) < loops + 1")
  case True
  with assms show ?thesis by (simp add: runUpdateBatchKeepMounted_def)
next
  case False
  let ?h1 = "h\<lparr>body := body h @ [\<lparr>stylePosition = ''absolute'', styleLeft = ''-10000px'',
                                   styleTop = ''0'', rendered = None\<rparr>]\<rparr>"
  obtain out h2 where w: "renderAndWait u Impl (length (body h)) (elementAt propsLists 0) ?h1
      = (out, h2)"
    by (cases "renderAndWait u Impl (length (body h)) (elementAt propsLists 0) ?h1")
  have c2: "reactCommit h2 = reactCommit h"
    using reactCommit_renderAndWait [of u Impl "length (body h)" "elementAt propsLists 0" ?h1] w
    by simp
  show ?thesis
  proof (cases out)
    case Pending
    with w have "fst (renderAndWait u Impl (length (body h)) (elementAt propsLists 0) ?h1)
        = Pending" by simp
    then have "\<exists>n. reactCommit ?h1 n = None" by (rule renderAndWait_pending)
    then show ?thesis by simp
  next
    case (Thrown e)
    with assms False w show ?thesis by (simp add: runUpdateBatchKeepMounted_def Let_def)
  next
    case (Returned warmup)
    obtain before h4 where m: "readMemory (maybeGC h2) = (before, h4)"
      by (cases "readMemory (maybeGC h2)")
    have c4: "reactCommit h4 = reactCommit h"
      using reactCommit_readMemory [of "maybeGC h2"] m by (simp add: reactCommit_maybeGC c2)
    obtain out' h5 where l: "updateLoop u Impl (length (body h)) propsLists loops 0 0 0 h4
        = (out', h5)"
      by (cases "updateLoop u Impl (length (body h)) propsLists loops 0 0 0 h4")
    from assms False w Returned m l have "out' = Pending"
      by (cases out') (auto simp: runUpdateBatchKeepMounted_def Let_def split: prod.splits)
    with l have "fst (updateLoop u Impl (length (body h)) propsLists loops 0 0 0 h4) = Pending"
      by simp
    then have "\<exists>n. reactCommit h4 n = None" by (rule updateLoop_pending)
    with c4 show ?thesis by simp
  qed
qed

section \<open>The props lists the driver hands to the update phase\<close>

text \<open>The array has \<open>mountLoops + 1\<close> entries, or none when that number is negative.\<close>

lemma propsListsForUpdate_length:
  "length (fst (propsListsForUpdate u h)) = nat (mountLoops u + 1)"
  by (simp add: propsListsForUpdate_eq)

text \<open>
  Claim C8. For every loop count \<open>mountLoops \<ge> 0\<close>, the array the driver builds for the update
  phase has exactly \<open>mountLoops + 1\<close> entries; entry \<open>k\<close> is the list a call of
  \<^verbatim>\<open>buildPropsList\<close> of its own returns, started where the calls before it left the random
  source (so no draw is shared between two lists); every entry has one prop set per
  container; and the update phase, called with this array and this loop count, passes its
  length check and so never throws the configuration error.
\<close>

theorem propsListsForUpdate_count:
  assumes "0 \<le> mountLoops u"
  shows "int (length (fst (propsListsForUpdate u h))) = mountLoops u + 1
    \<and> fst (propsListsForUpdate u h)
        = map (\<lambda>k. fst (buildPropsList u (h\<lparr>reads := reads h + k * drawsPerList u\<rparr>)))
            [0..<nat (mountLoops u + 1)]
    \<and> (\<forall>propsList \<in> set (fst (propsListsForUpdate u h)).
          length propsList = nat (flexboxCount u))
    \<and> fst (runUpdateBatchKeepMounted u nm Impl (fst (propsListsForUpdate u h)) (mountLoops u) h')
        \<noteq> Thrown (Error ''propsLists must include warmup + loops'')"
proof -
  let ?pls = "fst (propsListsForUpdate u h)"
  have eq: "?pls = map (\<lambda>k. fst (buildPropsList u (h\<lparr>reads := reads h + k * drawsPerList u\<rparr>)))
            [0..<nat (mountLoops u + 1)]"
    by (simp add: propsListsForUpdate_eq)
  then have len: "int (length ?pls) = mountLoops u + 1"
    using assms by simp
  have each: "\<forall>propsList \<in> set ?pls. length propsList = nat (flexboxCount u)"
    by (auto simp: eq buildPropsList_length)
  have "fst (runUpdateBatchKeepMounted u nm Impl ?pls (mountLoops u) h')
        \<noteq> Thrown (Error ''propsLists must include warmup + loops'')"
  proof
    assume "fst (runUpdateBatchKeepMounted u nm Impl ?pls (mountLoops u) h')
        = Thrown (Error ''propsLists must include warmup + loops'')"
    from runUpdateBatchKeepMounted_thrown [OF this] len show False by simp
  qed
  with len eq each show ?thesis by (intro conjI)
qed

theorem propsListsForUpdate_count_witness:
  "0 \<le> mountLoops (exampleUi\<lparr>mountLoops := 2\<rparr>)
   \<and> fst (propsListsForUpdate (exampleUi\<lparr>mountLoops := 2\<rparr>) exampleHost)
       = [[buildFixedProps], [buildFixedProps], [buildFixedProps]]
   \<and> length (fst (propsListsForUpdate (exampleUi\<lparr>mountLoops := 2\<rparr>) exampleHost)) = 3"
proof -
  have a: "0 \<le> mountLoops (exampleUi\<lparr>mountLoops := 2\<rparr>)" by simp
  have f: "\<not> randomPropsEnabled (exampleUi\<lparr>mountLoops := 2\<rparr>)"
    "flexboxCount (exampleUi\<lparr>mountLoops := 2\<rparr>) = 1"
    by (simp_all add: exampleUi_def)
  have b: "fst (propsListsForUpdate (exampleUi\<lparr>mountLoops := 2\<rparr>) exampleHost)
       = [[buildFixedProps], [buildFixedProps], [buildFixedProps]]"
    by (simp add: propsListsForUpdate_eq buildPropsList_fixed f upt_rec numeral_3_eq_3)
  show ?thesis
    using propsListsForUpdate_count [OF a, of exampleHost] a b by simp
qed

section \<open>The creation-only phase: how it ends\<close>

lemma createLoop_skipped: "iterations \<le> i \<Longrightarrow> createLoop u Impl propsList iterations i l = l"
  by (subst createLoop.simps) simp

lemma createLoop_ran:
  "i < iterations \<Longrightarrow>
     createLoop u Impl propsList iterations i l
       = Some (createElement Fragment None (implElements u Impl propsList))"
proof (induction u Impl propsList iterations i l rule: createLoop.induct)
  case (1 u Impl propsList iterations i l)
  show ?case
  proof (cases "i + 1 < iterations")
    case True
    with "1.prems" show ?thesis
      by (subst createLoop.simps) (simp add: "1.IH")
  next
    case False
    with "1.prems" show ?thesis
      by (subst createLoop.simps) (simp add: createLoop_skipped)
  qed
qed

lemma runCreateOnlyForest_throws:
  assumes "iterations \<le> 0"
  shows "runCreateOnlyForest u nm Impl propsList iterations h
        = (Thrown (Error ''create-only sanity check failed''),
           snd (now (snd (readMemory (maybeGC h)))))"
  by (simp add: runCreateOnlyForest_def createLoop_skipped [OF assms] isValidElement_def Let_def
      split: prod.splits)

text \<open>
  Claim C10. For \<open>iterations \<le> 0\<close> the construction loop of \<^verbatim>\<open>runCreateOnlyForest\<close> runs no
  iteration, \<^verbatim>\<open>last\<close> is still \<^verbatim>\<open>null\<close>, the validity check fails, and the phase throws the
  create-only sanity-check error after the first settle, memory sample and clock reading;
  it returns no result, so \<^verbatim>\<open>total / iterations\<close> is not evaluated.
\<close>

theorem runCreateOnlyForest_no_iterations:
  assumes "iterations \<le> 0"
  shows "createLoop u Impl propsList iterations 0 None = None
    \<and> \<not> isValidElement (createLoop u Impl propsList iterations 0 None)
    \<and> runCreateOnlyForest u nm Impl propsList iterations h
        = (Thrown (Error ''create-only sanity check failed''),
           snd (now (snd (readMemory (maybeGC h)))))
    \<and> (\<forall>r. fst (runCreateOnlyForest u nm Impl propsList iterations h) \<noteq> Returned r)"
proof -
  have l: "createLoop u Impl propsList iterations 0 None = None"
    using assms by (rule createLoop_skipped)
  have r: "runCreateOnlyForest u nm Impl propsList iterations h
        = (Thrown (Error ''create-only sanity check failed''),
           snd (now (snd (readMemory (maybeGC h)))))"
    using assms by (rule runCreateOnlyForest_throws)
  show ?thesis by (simp add: l r isValidElement_def)
qed

theorem runCreateOnlyForest_no_iterations_witness:
  "(0::int) \<le> 0 \<and> (- 3::int) \<le> 0
   \<and> fst (runCreateOnlyForest exampleUi ''local(FlexBasic)'' FlexBasic [buildFixedProps] 0 exampleHost)
       = Thrown (Error ''create-only sanity check failed'')
   \<and> fst (runCreateOnlyForest exampleUi ''local(FlexBasic)'' FlexBasic [buildFixedProps] (- 3) exampleHost)
       = Thrown (Error ''create-only sanity check failed'')"
proof -
  have a: "(0::int) \<le> 0" and b: "(- 3::int) \<le> 0" by simp_all
  show ?thesis
    using runCreateOnlyForest_no_iterations
        [OF a, of exampleUi FlexBasic "[buildFixedProps]" "''local(FlexBasic)''" exampleHost]
      runCreateOnlyForest_no_iterations
        [OF b, of exampleUi FlexBasic "[buildFixedProps]" "''local(FlexBasic)''" exampleHost]
    by simp
qed

lemma runCreateOnlyForest_not_pending:
  "fst (runCreateOnlyForest u nm Impl propsList iterations h) \<noteq> Pending"
  by (simp add: runCreateOnlyForest_def Let_def split: prod.splits)

lemma reactCommit_runCreateOnlyForest:
  "reactCommit (snd (runCreateOnlyForest u nm Impl propsList iterations h)) = reactCommit h"
proof -
  obtain before h2 where m1: "readMemory (maybeGC h) = (before, h2)"
    by (cases "readMemory (maybeGC h)")
  have c2: "reactCommit h2 = reactCommit h"
    using reactCommit_readMemory [of "maybeGC h"] m1 by (simp add: reactCommit_maybeGC)
  obtain start h3 where n1: "now h2 = (start, h3)" by (cases "now h2")
  have c3: "reactCommit h3 = reactCommit h"
    using reactCommit_now [of h2] n1 c2 by simp
  obtain end' h4 where n2: "now h3 = (end', h4)" by (cases "now h3")
  have c4: "reactCommit h4 = reactCommit h"
    using reactCommit_now [of h3] n2 c3 by simp
  obtain afterCreate h6 where m2: "readMemory (maybeGC h4) = (afterCreate, h6)"
    by (cases "readMemory (maybeGC h4)")
  have c6: "reactCommit h6 = reactCommit h"
    using reactCommit_readMemory [of "maybeGC h4"] m2 by (simp add: reactCommit_maybeGC c4)
  show ?thesis
    by (cases "isValidElement (createLoop u Impl propsList iterations 0 None)")
      (simp_all add: runCreateOnlyForest_def m1 n1 n2 m2 c3 c6 Let_def)
qed

section \<open>Per-operation timings\<close>

text \<open>
  For every count of at least one, each phase reports exactly its total divided by the count:
  the creation phase always returns then, and the update phase returns whenever every
  render commits and it was given at least \<open>loops + 1\<close> props lists.
\<close>

lemma runCreateOnlyForest_returns:
  assumes "1 \<le> iterations"
  shows "\<exists>r h'. runCreateOnlyForest u nm Impl propsList iterations h = (Returned r, h')
    \<and> CreateResult.createOnlyMsPerOp r
        = Finite (CreateResult.createOnlyMsTotal r / of_int iterations)"
proof -
  from assms have "createLoop u Impl propsList iterations 0 None
      = Some (createElement Fragment None (implElements u Impl propsList))"
    by (intro createLoop_ran) simp
  then show ?thesis
    using assms
    by (simp add: runCreateOnlyForest_def isValidElement_def jsDivide_def Let_def
        split: prod.splits)
qed

lemma runUpdateBatchKeepMounted_perOp:
  assumes "runUpdateBatchKeepMounted u nm Impl propsLists loops h = (Returned r, h')"
  shows "UpdateResult.updateMsPerOp r = jsDivide (UpdateResult.updateMsTotal r) loops"
  using assms
  by (auto simp: runUpdateBatchKeepMounted_def Let_def split: if_splits prod.splits outcome.splits)

lemma runUpdateBatchKeepMounted_perOp_exact:
  assumes "runUpdateBatchKeepMounted u nm Impl propsLists loops h = (Returned r, h')"
    and "1 \<le> loops"
  shows "UpdateResult.updateMsPerOp r = Finite (UpdateResult.updateMsTotal r / of_int loops)"
  using runUpdateBatchKeepMounted_perOp [OF assms(1)] assms(2) by (simp add: jsDivide_def)

lemma runUpdateBatchKeepMounted_returns:
  assumes "\<forall>n. reactCommit h n \<noteq> None"
    and "1 \<le> loops" and "loops + 1 \<le> int (length propsLists)"
  shows "\<exists>r h'. runUpdateBatchKeepMounted u nm Impl propsLists loops h = (Returned r, h')
    \<and> UpdateResult.updateMsPerOp r = Finite (UpdateResult.updateMsTotal r / of_int loops)"
proof -
  obtain out h' where run: "runUpdateBatchKeepMounted u nm Impl propsLists loops h = (out, h')"
    by (cases "runUpdateBatchKeepMounted u nm Impl propsLists loops h")
  have "out \<noteq> Pending"
  proof
    assume "out = Pending"
    with run have "fst (runUpdateBatchKeepMounted u nm Impl propsLists loops h) = Pending" by simp
    then have "\<exists>n. reactCommit h n = None" by (rule runUpdateBatchKeepMounted_pending)
    with assms(1) show False by blast
  qed
  moreover have "out \<noteq> Thrown e" for e
  proof
    assume t: "out = Thrown e"
    with run have f: "fst (runUpdateBatchKeepMounted u nm Impl propsLists loops h) = Thrown e"
      by simp
    from assms(2,3) have "0 < int (length propsLists)" by linarith
    then have first: "elementAt propsLists 0 = Some (propsLists ! 0)"
      by (simp add: elementAt_def)
    let ?h1 = "h\<lparr>body := body h @ [\<lparr>stylePosition = ''absolute'', styleLeft = ''-10000px'',
                                     styleTop = ''0'', rendered = None\<rparr>]\<rparr>"
    obtain w h2 where wu: "renderAndWait u Impl (length (body h)) (Some (propsLists ! 0)) ?h1
        = (w, h2)"
      by (cases "renderAndWait u Impl (length (body h)) (Some (propsLists ! 0)) ?h1")
    have nw: "w \<noteq> Thrown e"
      using renderAndWait_thrown_undefined [of u Impl "length (body h)" "propsLists ! 0" ?h1 e] wu
      by simp
    obtain before h4 where m: "readMemory (maybeGC h2) = (before, h4)"
      by (cases "readMemory (maybeGC h2)")
    obtain out' h5 where l: "updateLoop u Impl (length (body h)) propsLists loops 0 0 0 h4
        = (out', h5)"
      by (cases "updateLoop u Impl (length (body h)) propsLists loops 0 0 0 h4")
    have nl: "out' \<noteq> Thrown e"
      using updateLoop_in_range [of 0 loops propsLists u Impl "length (body h)" 0 0 h4 e]
        assms(3) l by simp
    from f assms(3) first wu nw m l nl show False
      by (cases w; cases out')
        (auto simp: runUpdateBatchKeepMounted_def Let_def split: prod.splits)
  qed
  ultimately obtain r where "out = Returned r" by (cases out) auto
  with run have "runUpdateBatchKeepMounted u nm Impl propsLists loops h = (Returned r, h')"
    by simp
  with runUpdateBatchKeepMounted_perOp_exact [OF this assms(2)] show ?thesis by blast
qed

lemmas host_steps = now_def raf_def maybeGC_def readMemory_def cleanupEmotionStyleTags_def

text \<open>
  Claim C5 at a count of zero. With \<^verbatim>\<open>loops = 0\<close> and the one props list the driver then
  supplies, \<^verbatim>\<open>runUpdateBatchKeepMounted\<close> passes its length check, mounts the warmup frame,
  measures nothing and returns a result whose \<^verbatim>\<open>updateMsPerOp\<close> is \<^verbatim>\<open>0 / 0\<close>, that is
  \<^verbatim>\<open>NaN\<close>: the count of zero is neither rejected nor guarded.
\<close>

theorem zero_loops_divides_by_zero:
  "fst (runUpdateBatchKeepMounted exampleUi ''local(FlexBasic)'' FlexBasic [[buildFixedProps]] 0
          exampleHost)
     = Returned \<lparr>UpdateResult.name = ''local(FlexBasic)'',
                 UpdateResult.updateMsTotal = 0,
                 UpdateResult.updateMsPerOp = NaN,
                 UpdateResult.reactActualDurationMsTotal = 0,
                 UpdateResult.memory =
                   Some \<lparr>createBefore = None, createAfter = None,
                         mountBefore =
                           Some \<lparr>usedJSHeapSize = Some 3000, totalJSHeapSize = Some 5000000,
                                 jsHeapSizeLimit = Some 9000000\<rparr>,
                         mountAfter =
                           Some \<lparr>usedJSHeapSize = Some 4000, totalJSHeapSize = Some 5000000,
                                 jsHeapSizeLimit = Some 9000000\<rparr>\<rparr>\<rparr>"
  by (simp add: runUpdateBatchKeepMounted_def renderAndWait_def host_steps elementAt_def
      exampleHost_def jsDivide_def updateLoop_stop Let_def)

text \<open>The same through the driver: with the loop count set to zero, \<^verbatim>\<open>runOne\<close> stores a
  result whose time per update is \<^verbatim>\<open>NaN\<close>, which the table prints as \<^verbatim>\<open>NaN ms\<close>.\<close>

lemma example_run_zero_loops:
  "results (fst (snd (runOne ''local(FlexBasic)'' (exampleUi\<lparr>mountLoops := 0\<rparr>) exampleHost)))
     = Some [\<lparr>CaseResult.name = ''local(FlexBasic)'', createOnlyMsTotal = 1,
               createOnlyMsPerOp = Finite (1 / 2), updateMsTotal = 0,
               updateMsPerOp = NaN, reactActualDurationMsTotal = 0,
               memory =
                 Some \<lparr>createBefore =
                         Some \<lparr>usedJSHeapSize = Some 0, totalJSHeapSize = Some 5000000,
                               jsHeapSizeLimit = Some 9000000\<rparr>,
                       createAfter =
                         Some \<lparr>usedJSHeapSize = Some 3000, totalJSHeapSize = Some 5000000,
                               jsHeapSizeLimit = Some 9000000\<rparr>,
                       mountBefore =
                         Some \<lparr>usedJSHeapSize = Some 7000, totalJSHeapSize = Some 5000000,
                               jsHeapSizeLimit = Some 9000000\<rparr>,
                       mountAfter =
                         Some \<lparr>usedJSHeapSize = Some 8000, totalJSHeapSize = Some 5000000,
                               jsHeapSizeLimit = Some 9000000\<rparr>\<rparr>\<rparr>]"
  by (simp add: runOne_def tryBlock_def cases_def buildPropsList_fixed propsListsForUpdate_eq
      drawsPerList_def runCreateOnlyForest_def createLoop_ran isValidElement_def
      runUpdateBatchKeepMounted_def renderAndWait_def host_steps elementAt_def exampleHost_def
      exampleUi_def jsDivide_def updateLoop_stop upsertResult_def upsertUpdater_def
      storedList_def setRunning_def setError_def memoryField_def Let_def)

lemma formatMs_NaN: "formatMs numberToString NaN = ''NaN ms''"
  by (simp add: formatMs_def)

section \<open>The per-case driver: errors and the running flag\<close>

lemma find_case_None: "find (\<lambda>x. fst x = nm) cases = None \<longleftrightarrow> nm \<notin> fst ` set cases"
  by (auto simp: find_None_iff image_iff)

lemma find_case_Some: "find (\<lambda>x. fst x = nm) cases = Some c \<Longrightarrow> nm \<in> fst ` set cases"
  using find_case_None [of nm] by force

lemma tryBlock_unknown:
  assumes "nm \<notin> fst ` set cases"
  shows "tryBlock nm u h = (Thrown (Error (''Unknown case: '' @ nm)), u, raf h)"
proof -
  from assms have "find (\<lambda>x. fst x = nm) cases = None"
    by (simp add: find_case_None)
  then show ?thesis by (simp add: tryBlock_def Let_def)
qed

lemma tryBlock_keeps_state:
  "fst (tryBlock nm u h) \<noteq> Returned () \<Longrightarrow> fst (snd (tryBlock nm u h)) = u"
  by (auto simp: tryBlock_def Let_def split: option.splits prod.splits outcome.splits)

lemma tryBlock_sanity:
  assumes "nm \<in> fst ` set cases" and "createIterations u \<le> 0"
  shows "fst (tryBlock nm u h) = Thrown (Error ''create-only sanity check failed'')"
proof -
  from assms(1) obtain c where c: "find (\<lambda>x. fst x = nm) cases = Some c"
    using find_case_None [of nm] by auto
  obtain propsList h2 where b1: "buildPropsList u (raf h) = (propsList, h2)"
    by (cases "buildPropsList u (raf h)")
  obtain propsLists h3 where b2: "propsListsForUpdate u h2 = (propsLists, h3)"
    by (cases "propsListsForUpdate u h2")
  show ?thesis
    by (simp add: tryBlock_def c b1 b2 runCreateOnlyForest_throws [OF assms(2)] Let_def)
qed

lemma tryBlock_update_throws:
  assumes "find (\<lambda>x. fst x = nm) cases = Some c"
    and "buildPropsList u (raf h) = (propsList, h2)"
    and "propsListsForUpdate u h2 = (propsLists, h3)"
    and "runCreateOnlyForest u (fst c) (snd c) propsList (createIterations u) h3
           = (Returned create, h4)"
    and "runUpdateBatchKeepMounted u (fst c) (snd c) propsLists (mountLoops u) h4 = (Thrown e, h5)"
  shows "tryBlock nm u h = (Thrown e, u, h5)"
  using assms by (simp add: tryBlock_def Let_def)

lemma tryBlock_pending:
  assumes "fst (tryBlock nm u h) = Pending"
  shows "\<exists>n. reactCommit h n = None"
proof (cases "find (\<lambda>x. fst x = nm) cases")
  case None
  with assms show ?thesis by (simp add: tryBlock_def Let_def)
next
  case (Some c)
  obtain propsList h2 where b1: "buildPropsList u (raf h) = (propsList, h2)"
    by (cases "buildPropsList u (raf h)")
  obtain propsLists h3 where b2: "propsListsForUpdate u h2 = (propsLists, h3)"
    by (cases "propsListsForUpdate u h2")
  obtain out h4 where b3:
    "runCreateOnlyForest u (fst c) (snd c) propsList (createIterations u) h3 = (out, h4)"
    by (cases "runCreateOnlyForest u (fst c) (snd c) propsList (createIterations u) h3")
  have c2: "reactCommit h2 = reactCommit h"
    using buildPropsList_host [of u "raf h"] b1 by (simp add: raf_def)
  have c3: "reactCommit h3 = reactCommit h"
    using propsListsForUpdate_eq [of u h2] b2 c2 by auto
  have c4: "reactCommit h4 = reactCommit h"
    using reactCommit_runCreateOnlyForest
      [of u "fst c" "snd c" propsList "createIterations u" h3] b3 c3 by simp
  show ?thesis
  proof (cases out)
    case Pending
    with b3 show ?thesis
      using runCreateOnlyForest_not_pending
        [of u "fst c" "snd c" propsList "createIterations u" h3] by simp
  next
    case (Thrown e)
    with assms Some b1 b2 b3 show ?thesis by (simp add: tryBlock_def Let_def)
  next
    case (Returned create)
    obtain out' h5 where b4:
      "runUpdateBatchKeepMounted u (fst c) (snd c) propsLists (mountLoops u) h4 = (out', h5)"
      by (cases "runUpdateBatchKeepMounted u (fst c) (snd c) propsLists (mountLoops u) h4")
    from assms Some b1 b2 b3 Returned b4 have "out' = Pending"
      by (cases out') (simp_all add: tryBlock_def Let_def)
    with b4 have "fst (runUpdateBatchKeepMounted u (fst c) (snd c) propsLists (mountLoops u) h4)
        = Pending" by simp
    then have "\<exists>n. reactCommit h4 n = None" by (rule runUpdateBatchKeepMounted_pending)
    with c4 show ?thesis by simp
  qed
qed

text \<open>
  Claim C2. \<^verbatim>\<open>runOne\<close> never throws: it ends, or it stays suspended exactly when its \<^verbatim>\<open>try\<close>
  block does, which needs a render that never commits; when every render commits it ends.
  Whenever it ends, the running flag is cleared. When a step of the \<^verbatim>\<open>try\<close> block throws
  \<open>e\<close>, \<^verbatim>\<open>runOne\<close> ends with the message of \<open>e\<close> as the error, the running flag cleared, and
  the rest of the component state, the result store included, exactly as before the run.
  The steps that throw: a case name that is not registered throws \<^verbatim>\<open>Unknown case\<close>; a
  creation phase with no iteration throws the sanity-check error; and whatever the update
  phase throws, called as the driver calls it, the \<^verbatim>\<open>try\<close> block throws.
\<close>

theorem runOne_catches_and_clears_running:
  "(fst (runOne nm u h) = Returned () \<or> fst (runOne nm u h) = Pending)
   \<and> (fst (runOne nm u h) = Returned () \<longrightarrow> \<not> running (fst (snd (runOne nm u h))))
   \<and> (fst (runOne nm u h) = Pending)
       = (fst (tryBlock nm (setRunning True (setError None u)) h) = Pending)
   \<and> ((\<forall>n. reactCommit h n \<noteq> None) \<longrightarrow> fst (runOne nm u h) = Returned ())
   \<and> (fst (tryBlock nm (setRunning True (setError None u)) h) = Thrown e \<longrightarrow>
        runOne nm u h
          = (Returned (), u\<lparr>error := Some (message e), running := False\<rparr>,
             snd (snd (tryBlock nm (setRunning True (setError None u)) h)))
        \<and> error (fst (snd (runOne nm u h))) = Some (message e)
        \<and> results (fst (snd (runOne nm u h))) = results u)
   \<and> (nm \<notin> fst ` set cases \<longrightarrow>
        fst (tryBlock nm (setRunning True (setError None u)) h)
          = Thrown (Error (''Unknown case: '' @ nm)))
   \<and> (nm \<in> fst ` set cases \<and> createIterations u \<le> 0 \<longrightarrow>
        fst (tryBlock nm (setRunning True (setError None u)) h)
          = Thrown (Error ''create-only sanity check failed''))
   \<and> (find (\<lambda>x. fst x = nm) cases = Some c
        \<and> buildPropsList (setRunning True (setError None u)) (raf h) = (propsList, h2)
        \<and> propsListsForUpdate (setRunning True (setError None u)) h2 = (propsLists, h3)
        \<and> runCreateOnlyForest (setRunning True (setError None u)) (fst c) (snd c) propsList
             (createIterations u) h3 = (Returned create, h4)
        \<and> runUpdateBatchKeepMounted (setRunning True (setError None u)) (fst c) (snd c) propsLists
             (mountLoops u) h4 = (Thrown e', h5) \<longrightarrow>
        fst (tryBlock nm (setRunning True (setError None u)) h) = Thrown e')"
proof -
  let ?U = "setRunning True (setError None u)"
  obtain out u3 h1 where t: "tryBlock nm ?U h = (out, u3, h1)"
    by (cases "tryBlock nm ?U h")
  have keep: "out \<noteq> Returned () \<Longrightarrow> u3 = ?U"
    using tryBlock_keeps_state [of nm ?U h] t by simp
  have fields: "createIterations ?U = createIterations u" "mountLoops ?U = mountLoops u"
    by (simp_all add: setRunning_def setError_def)
  have run: "runOne nm u h =
      (case out of
         Returned x \<Rightarrow> (Returned (), setRunning False u3, h1)
       | Thrown e \<Rightarrow> (Returned (), setRunning False (setError (Some (message e)) u3), h1)
       | Pending \<Rightarrow> (Pending, u3, h1))"
    by (simp add: runOne_def t Let_def split: outcome.splits)
  have ends: "fst (runOne nm u h) = Returned () \<or> fst (runOne nm u h) = Pending"
    by (cases out) (simp_all add: run)
  have flag: "fst (runOne nm u h) = Returned () \<longrightarrow> \<not> running (fst (snd (runOne nm u h)))"
    by (cases out) (simp_all add: run setRunning_def)
  have pending: "(fst (runOne nm u h) = Pending) = (fst (tryBlock nm ?U h) = Pending)"
    by (cases out) (simp_all add: run t)
  have commits: "(\<forall>n. reactCommit h n \<noteq> None) \<longrightarrow> fst (runOne nm u h) = Returned ()"
  proof
    assume all: "\<forall>n. reactCommit h n \<noteq> None"
    have "fst (runOne nm u h) \<noteq> Pending"
    proof
      assume "fst (runOne nm u h) = Pending"
      with pending have "fst (tryBlock nm ?U h) = Pending" by simp
      then have "\<exists>n. reactCommit h n = None" by (rule tryBlock_pending)
      with all show False by blast
    qed
    with ends show "fst (runOne nm u h) = Returned ()" by simp
  qed
  have caught: "fst (tryBlock nm ?U h) = Thrown e \<longrightarrow>
        runOne nm u h
          = (Returned (), u\<lparr>error := Some (message e), running := False\<rparr>,
             snd (snd (tryBlock nm ?U h)))
        \<and> error (fst (snd (runOne nm u h))) = Some (message e)
        \<and> results (fst (snd (runOne nm u h))) = results u"
  proof
    assume "fst (tryBlock nm ?U h) = Thrown e"
    with t have out: "out = Thrown e" by simp
    with keep have u3: "u3 = ?U" by simp
    have r: "runOne nm u h
        = (Returned (), u\<lparr>error := Some (message e), running := False\<rparr>, h1)"
      by (simp add: run out u3 setRunning_def setError_def)
    then show "runOne nm u h
          = (Returned (), u\<lparr>error := Some (message e), running := False\<rparr>,
             snd (snd (tryBlock nm ?U h)))
        \<and> error (fst (snd (runOne nm u h))) = Some (message e)
        \<and> results (fst (snd (runOne nm u h))) = results u"
      by (simp add: t)
  qed
  have unknown: "nm \<notin> fst ` set cases \<longrightarrow>
        fst (tryBlock nm ?U h) = Thrown (Error (''Unknown case: '' @ nm))"
    by (simp add: tryBlock_unknown)
  have sanity: "nm \<in> fst ` set cases \<and> createIterations u \<le> 0 \<longrightarrow>
        fst (tryBlock nm ?U h) = Thrown (Error ''create-only sanity check failed'')"
    using tryBlock_sanity [of nm ?U h] by (simp add: fields)
  have update: "find (\<lambda>x. fst x = nm) cases = Some c
        \<and> buildPropsList ?U (raf h) = (propsList, h2)
        \<and> propsListsForUpdate ?U h2 = (propsLists, h3)
        \<and> runCreateOnlyForest ?U (fst c) (snd c) propsList (createIterations u) h3
             = (Returned create, h4)
        \<and> runUpdateBatchKeepMounted ?U (fst c) (snd c) propsLists (mountLoops u) h4
             = (Thrown e', h5) \<longrightarrow>
        fst (tryBlock nm ?U h) = Thrown e'"
    using tryBlock_update_throws [of nm c ?U h propsList h2 propsLists h3 create h4 e' h5]
    by (simp add: fields)
  from ends flag pending commits caught unknown sanity update show ?thesis
    by (intro conjI)
qed

lemma runUpdateBatchKeepMounted_no_warmup_list:
  "\<exists>h'. runUpdateBatchKeepMounted u nm Impl [] (- 1) h = (Thrown (TypeError mapOfUndefined), h')"
  by (simp add: runUpdateBatchKeepMounted_def renderAndWait_def now_def elementAt_def Let_def)

theorem runOne_catches_and_clears_running_witness:
  "''remote'' \<notin> fst ` set cases
   \<and> runOne ''remote'' (exampleUi\<lparr>results := Some [exampleResult ''native(WebComponent)'' 1]\<rparr>)
        exampleHost
       = (Returned (),
          exampleUi\<lparr>results := Some [exampleResult ''native(WebComponent)'' 1],
                    error := Some ''Unknown case: remote''\<rparr>,
          raf exampleHost)
   \<and> ''local(FlexBasic)'' \<in> fst ` set cases
   \<and> fst (snd (runOne ''local(FlexBasic)''
                 (exampleUi\<lparr>results := Some [exampleResult ''native(WebComponent)'' 1],
                           createIterations := 0\<rparr>)
                 exampleHost))
       = exampleUi\<lparr>results := Some [exampleResult ''native(WebComponent)'' 1],
                   createIterations := 0,
                   error := Some ''create-only sanity check failed''\<rparr>
   \<and> fst (snd (runOne ''local(FlexBasic)''
                 (exampleUi\<lparr>results := Some [exampleResult ''native(WebComponent)'' 1],
                           mountLoops := - 1\<rparr>)
                 exampleHost))
       = exampleUi\<lparr>results := Some [exampleResult ''native(WebComponent)'' 1],
                   mountLoops := - 1,
                   error := Some mapOfUndefined\<rparr>
   \<and> (\<forall>n. reactCommit exampleHost n \<noteq> None)
   \<and> fst (runOne ''local(FlexBasic)'' exampleUi exampleHost) = Returned ()
   \<and> \<not> running (fst (snd (runOne ''local(FlexBasic)'' exampleUi exampleHost)))"
proof -
  let ?s = "Some [exampleResult ''native(WebComponent)'' 1]"
  let ?u1 = "exampleUi\<lparr>results := ?s\<rparr>"
  let ?u2 = "exampleUi\<lparr>results := ?s, createIterations := 0\<rparr>"
  let ?u3 = "exampleUi\<lparr>results := ?s, mountLoops := - 1\<rparr>"
  let ?U3 = "setRunning True (setError None ?u3)"
  have unknown: "''remote'' \<notin> fst ` set cases" by (simp add: cases_def)
  have known: "''local(FlexBasic)'' \<in> fst ` set cases" by (simp add: cases_def)
  have first: "runOne ''remote'' ?u1 exampleHost
       = (Returned (), ?u1\<lparr>error := Some ''Unknown case: remote''\<rparr>, raf exampleHost)"
    using runOne_catches_and_clears_running
      [of "''remote''" ?u1 exampleHost "Error ''Unknown case: remote''"] unknown
    by (simp add: tryBlock_unknown message_def exampleUi_def)
  have none: "createIterations ?u2 \<le> 0" by simp
  have second: "fst (snd (runOne ''local(FlexBasic)'' ?u2 exampleHost))
       = ?u2\<lparr>error := Some ''create-only sanity check failed''\<rparr>"
    using runOne_catches_and_clears_running
      [of "''local(FlexBasic)''" ?u2 exampleHost "Error ''create-only sanity check failed''"]
      known none
    by (simp add: message_def exampleUi_def)
  have c: "find (\<lambda>x. fst x = ''local(FlexBasic)'') cases = Some (''local(FlexBasic)'', FlexBasic)"
    by (simp add: cases_def)
  have fixed: "\<not> randomPropsEnabled ?U3" "mountLoops ?U3 = - 1" "createIterations ?U3 = 2"
    "createIterations ?u3 = 2" "mountLoops ?u3 = - 1"
    by (simp_all add: exampleUi_def setRunning_def setError_def)
  have pl: "buildPropsList ?U3 (raf exampleHost)
      = (replicate (nat (flexboxCount ?U3)) buildFixedProps, raf exampleHost)"
    by (rule buildPropsList_fixed) (rule fixed)
  have pls: "propsListsForUpdate ?U3 (raf exampleHost) = ([], raf exampleHost)"
    by (simp add: propsListsForUpdate_def arrayFrom_def fixed)
  from runCreateOnlyForest_returns
    [of 2 ?U3 "''local(FlexBasic)''" FlexBasic
        "replicate (nat (flexboxCount ?U3)) buildFixedProps" "raf exampleHost"]
  obtain create h4 where cr:
    "runCreateOnlyForest ?U3 ''local(FlexBasic)'' FlexBasic
       (replicate (nat (flexboxCount ?U3)) buildFixedProps) 2 (raf exampleHost)
       = (Returned create, h4)"
    by auto
  from runUpdateBatchKeepMounted_no_warmup_list [of ?U3 "''local(FlexBasic)''" FlexBasic h4]
  obtain h5 where up:
    "runUpdateBatchKeepMounted ?U3 ''local(FlexBasic)'' FlexBasic [] (- 1) h4
       = (Thrown (TypeError mapOfUndefined), h5)"
    by auto
  have thrown: "fst (tryBlock ''local(FlexBasic)'' ?U3 exampleHost)
      = Thrown (TypeError mapOfUndefined)"
    using runOne_catches_and_clears_running
      [of "''local(FlexBasic)''" ?u3 exampleHost _ "(''local(FlexBasic)'', FlexBasic)"
          "replicate (nat (flexboxCount ?U3)) buildFixedProps" "raf exampleHost" "[]"
          "raf exampleHost" create h4 "TypeError mapOfUndefined" h5]
      c pl pls cr up
    by (simp add: fixed)
  have third: "fst (snd (runOne ''local(FlexBasic)'' ?u3 exampleHost))
       = ?u3\<lparr>error := Some mapOfUndefined\<rparr>"
    using runOne_catches_and_clears_running
      [of "''local(FlexBasic)''" ?u3 exampleHost "TypeError mapOfUndefined"] thrown
    by (simp add: message_def exampleUi_def)
  have all: "\<forall>n. reactCommit exampleHost n \<noteq> None" by (simp add: exampleHost_def)
  have fourth: "fst (runOne ''local(FlexBasic)'' exampleUi exampleHost) = Returned ()
      \<and> \<not> running (fst (snd (runOne ''local(FlexBasic)'' exampleUi exampleHost)))"
    using runOne_catches_and_clears_running [of "''local(FlexBasic)''" exampleUi exampleHost] all
    by simp
  from unknown first known second third all fourth show ?thesis by simp
qed

text \<open>A whole run on the concrete browser, and the same run in a browser where no render
  ever commits: the run stays suspended with the running flag set.\<close>

lemma example_run:
  "results (fst (snd (runOne ''local(FlexBasic)'' exampleUi exampleHost)))
     = Some [\<lparr>CaseResult.name = ''local(FlexBasic)'', createOnlyMsTotal = 1,
               createOnlyMsPerOp = Finite (1 / 2), updateMsTotal = 2,
               updateMsPerOp = Finite 2, reactActualDurationMsTotal = 1,
               memory =
                 Some \<lparr>createBefore =
                         Some \<lparr>usedJSHeapSize = Some 0, totalJSHeapSize = Some 5000000,
                               jsHeapSizeLimit = Some 9000000\<rparr>,
                       createAfter =
                         Some \<lparr>usedJSHeapSize = Some 3000, totalJSHeapSize = Some 5000000,
                               jsHeapSizeLimit = Some 9000000\<rparr>,
                       mountBefore =
                         Some \<lparr>usedJSHeapSize = Some 7000, totalJSHeapSize = Some 5000000,
                               jsHeapSizeLimit = Some 9000000\<rparr>,
                       mountAfter =
                         Some \<lparr>usedJSHeapSize = Some 11000, totalJSHeapSize = Some 5000000,
                               jsHeapSizeLimit = Some 9000000\<rparr>\<rparr>\<rparr>]"
  by (simp add: runOne_def tryBlock_def cases_def buildPropsList_fixed propsListsForUpdate_eq
      drawsPerList_def runCreateOnlyForest_def createLoop_ran isValidElement_def
      runUpdateBatchKeepMounted_def renderAndWait_def host_steps elementAt_def exampleHost_def
      exampleUi_def jsDivide_def updateLoop_stop updateLoop_step upsertResult_def
      upsertUpdater_def storedList_def setRunning_def setError_def memoryField_def Let_def)

lemma example_run_stalled:
  "fst (runOne ''local(FlexBasic)'' exampleUi (exampleHost\<lparr>reactCommit := \<lambda>n. None\<rparr>)) = Pending
   \<and> running (fst (snd (runOne ''local(FlexBasic)'' exampleUi
                          (exampleHost\<lparr>reactCommit := \<lambda>n. None\<rparr>))))"
  by (simp add: runOne_def tryBlock_def cases_def buildPropsList_fixed propsListsForUpdate_eq
      drawsPerList_def runCreateOnlyForest_def createLoop_ran isValidElement_def
      runUpdateBatchKeepMounted_def renderAndWait_def host_steps elementAt_def exampleHost_def
      exampleUi_def jsDivide_def setRunning_def setError_def Let_def)

end
